theory Spec2Isabelle
  imports Main "HOL-Library.Word" "HOL-Library.Sublist"
begin

unbundle bit_operations_syntax

section \<open>JavaScript strings\<close>

text \<open>
  A JavaScript string is a sequence of 16-bit code units. Literals of the source are
  written with \<open>str\<close>, which maps each character of an Isabelle string to its code unit
  (so only code units up to U+00FF appear in literals).
\<close>

type_synonym jschar = "16 word"
type_synonym jsstring = "jschar list"

definition str :: "string \<Rightarrow> jsstring" where
  "str s = map of_char s"

text \<open>\<open>String.prototype.slice(a, b)\<close> for \<open>0 \<le> a \<le> b\<close>.\<close>

definition slice :: "nat \<Rightarrow> nat \<Rightarrow> jsstring \<Rightarrow> jsstring" where
  "slice a b s = take (b - a) (drop a s)"

text \<open>
  \<open>String.prototype.trim\<close> strips WhiteSpace and LineTerminator code units from both ends:
  TAB, LF, VT, FF, CR, SP, NBSP, the space separators of the Basic Multilingual Plane,
  LS, PS and ZWNBSP.
\<close>

definition js_whitespace :: "jschar \<Rightarrow> bool" where
  "js_whitespace c \<longleftrightarrow>
     (0x09 \<le> c \<and> c \<le> 0x0D) \<or> c = 0x20 \<or> c = 0xA0 \<or> c = 0x1680 \<or>
     (0x2000 \<le> c \<and> c \<le> 0x200A) \<or> c = 0x2028 \<or> c = 0x2029 \<or> c = 0x202F \<or>
     c = 0x205F \<or> c = 0x3000 \<or> c = 0xFEFF"

definition trim :: "jsstring \<Rightarrow> jsstring" where
  "trim s = rev (dropWhile js_whitespace (rev (dropWhile js_whitespace s)))"



section \<open>JSON\<close>

datatype json =
    JNull
  | JBool bool
  | JNumber int int  \<comment> \<open>the decimal literal \<open>m * 10 ^ e\<close>\<close>
  | JString jsstring
  | JArray "json list"
  | JObject "(jsstring \<times> json) list"

subsection \<open>JSON.stringify of an object with one string property\<close>

definition hexdigit :: "jschar \<Rightarrow> jschar" where
  "hexdigit n = (if n < 10 then 0x30 + n else 0x57 + n)"

definition UnicodeEscape :: "jschar \<Rightarrow> jsstring" where
  "UnicodeEscape c =
     [0x5C, 0x75, hexdigit (drop_bit 12 c), hexdigit (take_bit 4 (drop_bit 8 c)),
      hexdigit (take_bit 4 (drop_bit 4 c)), hexdigit (take_bit 4 c)]"

definition is_lead :: "jschar \<Rightarrow> bool" where
  "is_lead c \<longleftrightarrow> 0xD800 \<le> c \<and> c \<le> 0xDBFF"

definition is_trail :: "jschar \<Rightarrow> bool" where
  "is_trail c \<longleftrightarrow> 0xDC00 \<le> c \<and> c \<le> 0xDFFF"

text \<open>
  One code unit that is not part of a surrogate pair: the two-character escapes, a
  \<open>\uXXXX\<close> escape for the other control characters and for a lone surrogate, and
  the unit itself otherwise.
\<close>

definition quote_unit :: "jschar \<Rightarrow> jsstring" where
  "quote_unit c =
     (if c = 0x08 then [0x5C, 0x62]
      else if c = 0x09 then [0x5C, 0x74]
      else if c = 0x0A then [0x5C, 0x6E]
      else if c = 0x0C then [0x5C, 0x66]
      else if c = 0x0D then [0x5C, 0x72]
      else if c = 0x22 then [0x5C, 0x22]
      else if c = 0x5C then [0x5C, 0x5C]
      else if c < 0x20 \<or> is_lead c \<or> is_trail c then UnicodeEscape c
      else [c])"

fun quote_units :: "jsstring \<Rightarrow> jsstring" where
  "quote_units [] = []"
| "quote_units [c] = quote_unit c"
| "quote_units (c # d # cs) =
     (if is_lead c \<and> is_trail d then c # d # quote_units cs
      else quote_unit c @ quote_units (d # cs))"

definition QuoteJSONString :: "jsstring \<Rightarrow> jsstring" where
  "QuoteJSONString s = 0x22 # quote_units s @ [0x22]"

text \<open>\<open>JSON.stringify({ k: v })\<close> for a string \<open>v\<close>.\<close>

definition JSON_stringify1 :: "jsstring \<Rightarrow> jsstring \<Rightarrow> jsstring" where
  "JSON_stringify1 k v = 0x7B # QuoteJSONString k @ 0x3A # QuoteJSONString v @ [0x7D]"

subsection \<open>JSON.parse: tokens\<close>

datatype token =
    TLBrace | TRBrace | TLBrack | TRBrack | TColon | TComma
  | TStr jsstring | TNum int int | TTrue | TFalse | TNull

definition is_ws :: "jschar \<Rightarrow> bool" where
  "is_ws c \<longleftrightarrow> c = 0x20 \<or> c = 0x09 \<or> c = 0x0A \<or> c = 0x0D"

definition is_digit :: "jschar \<Rightarrow> bool" where
  "is_digit c \<longleftrightarrow> 0x30 \<le> c \<and> c \<le> 0x39"

definition hexval :: "jschar \<Rightarrow> jschar option" where
  "hexval c =
     (if 0x30 \<le> c \<and> c \<le> 0x39 then Some (c - 0x30)
      else if 0x61 \<le> c \<and> c \<le> 0x66 then Some (c - 0x57)
      else if 0x41 \<le> c \<and> c \<le> 0x46 then Some (c - 0x37)
      else None)"

definition unescape :: "jschar \<Rightarrow> jschar option" where
  "unescape e =
     (if e = 0x22 then Some 0x22
      else if e = 0x5C then Some 0x5C
      else if e = 0x2F then Some 0x2F
      else if e = 0x62 then Some 0x08
      else if e = 0x66 then Some 0x0C
      else if e = 0x6E then Some 0x0A
      else if e = 0x72 then Some 0x0D
      else if e = 0x74 then Some 0x09
      else None)"

definition hex4 :: "jschar \<Rightarrow> jschar \<Rightarrow> jschar \<Rightarrow> jschar \<Rightarrow> jschar option" where
  "hex4 h1 h2 h3 h4 =
     (case (hexval h1, hexval h2, hexval h3, hexval h4) of
        (Some a, Some b, Some c, Some d) \<Rightarrow>
          Some (push_bit 12 a OR push_bit 8 b OR push_bit 4 c OR d)
      | _ \<Rightarrow> None)"

definition cons_fst :: "'a \<Rightarrow> ('a list \<times> 'b) option \<Rightarrow> ('a list \<times> 'b) option" where
  "cons_fst c r = map_option (\<lambda>(s, rest). (c # s, rest)) r"

text \<open>
  The characters of a string literal after its opening quote: the decoded string and the
  input after the closing quote. A raw control character, an unknown escape and a missing
  closing quote are syntax errors.
\<close>

fun lex_string :: "jsstring \<Rightarrow> (jsstring \<times> jsstring) option" where
  "lex_string [] = None"
| "lex_string (c # cs) =
     (if c = 0x22 then Some ([], cs)
      else if c = 0x5C then
        (case cs of
           [] \<Rightarrow> None
         | e # es \<Rightarrow>
             if e = 0x75 then
               (case es of
                  h1 # h2 # h3 # h4 # rest \<Rightarrow>
                    (case hex4 h1 h2 h3 h4 of
                       None \<Rightarrow> None
                     | Some x \<Rightarrow> cons_fst x (lex_string rest))
                | _ \<Rightarrow> None)
             else
               (case unescape e of
                  None \<Rightarrow> None
                | Some x \<Rightarrow> cons_fst x (lex_string es)))
      else if c < 0x20 then None
      else cons_fst c (lex_string cs))"

definition digits_val :: "jsstring \<Rightarrow> int" where
  "digits_val ds = foldl (\<lambda>n c. 10 * n + uint (c - 0x30)) 0 ds"

text \<open>Integer part: a single 0, or a digit 1-9 followed by digits.\<close>

definition lex_int :: "jsstring \<Rightarrow> (jsstring \<times> jsstring) option" where
  "lex_int cs =
     (case cs of
        [] \<Rightarrow> None
      | d # r \<Rightarrow>
          if \<not> is_digit d then None
          else if d = 0x30 then Some ([d], r)
          else Some (d # takeWhile is_digit r, dropWhile is_digit r))"

text \<open>Optional fraction: a dot followed by at least one digit.\<close>

definition lex_frac :: "jsstring \<Rightarrow> (jsstring \<times> jsstring) option" where
  "lex_frac cs =
     (case cs of
        [] \<Rightarrow> Some ([], cs)
      | d # r \<Rightarrow>
          if d \<noteq> 0x2E then Some ([], cs)
          else if takeWhile is_digit r = [] then None
          else Some (takeWhile is_digit r, dropWhile is_digit r))"

text \<open>Optional exponent: e or E, an optional sign, at least one digit.\<close>

definition lex_exp :: "jsstring \<Rightarrow> (int \<times> jsstring) option" where
  "lex_exp cs =
     (case cs of
        [] \<Rightarrow> Some (0, cs)
      | e # r \<Rightarrow>
          if e \<noteq> 0x65 \<and> e \<noteq> 0x45 then Some (0, cs)
          else
            (let neg = (case r of [] \<Rightarrow> False | s # _ \<Rightarrow> s = 0x2D);
                 r' = (case r of [] \<Rightarrow> r | s # t \<Rightarrow> if s = 0x2D \<or> s = 0x2B then t else r)
             in if takeWhile is_digit r' = [] then None
                else Some ((if neg then - digits_val (takeWhile is_digit r')
                            else digits_val (takeWhile is_digit r')),
                           dropWhile is_digit r')))"

definition lex_number :: "jsstring \<Rightarrow> (token \<times> jsstring) option" where
  "lex_number cs =
     (let neg = (case cs of [] \<Rightarrow> False | s # _ \<Rightarrow> s = 0x2D);
          cs1 = (case cs of [] \<Rightarrow> cs | s # t \<Rightarrow> if s = 0x2D then t else cs)
      in case lex_int cs1 of
           None \<Rightarrow> None
         | Some (ip, cs2) \<Rightarrow>
             (case lex_frac cs2 of
                None \<Rightarrow> None
              | Some (fp, cs3) \<Rightarrow>
                  (case lex_exp cs3 of
                     None \<Rightarrow> None
                   | Some (ex, cs4) \<Rightarrow>
                       Some (TNum (if neg then - digits_val (ip @ fp) else digits_val (ip @ fp))
                                  (ex - int (length fp)),
                             cs4))))"

lemma cons_fst_rest:
  "cons_fst c r = Some (s, rest) \<Longrightarrow> \<exists>s'. r = Some (s', rest)"
  by (cases r) (auto simp: cons_fst_def)

lemma lex_string_length:
  "lex_string cs = Some (s, rest) \<Longrightarrow> length rest < length cs"
proof (induction cs arbitrary: s rule: lex_string.induct)
  case 1
  then show ?case by simp
next
  case (2 c cs)
  then show ?case
    by (fastforce split: if_splits list.splits option.splits dest: cons_fst_rest)
qed

lemma lex_int_length: "lex_int cs = Some (ip, rest) \<Longrightarrow> length rest < length cs"
  by (auto simp: lex_int_def length_dropWhile_le less_Suc_eq_le split: list.splits if_splits)

lemma lex_frac_length: "lex_frac cs = Some (fp, rest) \<Longrightarrow> length rest \<le> length cs"
  by (auto simp: lex_frac_def length_dropWhile_le le_SucI split: list.splits if_splits)

lemma lex_exp_length: "lex_exp cs = Some (ex, rest) \<Longrightarrow> length rest \<le> length cs"
  by (auto simp: lex_exp_def Let_def le_SucI split: list.splits if_splits
      intro: order_trans [OF length_dropWhile_le])

lemma lex_number_length:
  "lex_number cs = Some (t, rest) \<Longrightarrow> length rest < length cs"
proof -
  assume a: "lex_number cs = Some (t, rest)"
  let ?cs1 = "case cs of [] \<Rightarrow> cs | s # t \<Rightarrow> if s = 0x2D then t else cs"
  have l1: "length ?cs1 \<le> length cs" by (simp split: list.splits)
  from a obtain ip cs2 fp cs3 ex where
    i: "lex_int ?cs1 = Some (ip, cs2)" and f: "lex_frac cs2 = Some (fp, cs3)"
    and e: "lex_exp cs3 = Some (ex, rest)"
    by (auto simp: lex_number_def Let_def split: option.splits)
  from lex_int_length [OF i] lex_frac_length [OF f] lex_exp_length [OF e] l1
  show ?thesis by linarith
qed

text \<open>
  The token stream of a text: insignificant whitespace is skipped; anything that starts
  no token is a syntax error.
\<close>

function lex :: "jsstring \<Rightarrow> token list option" where
  "lex [] = Some []"
| "lex (c # cs) =
     (if is_ws c then lex cs
      else if c = 0x7B then map_option (Cons TLBrace) (lex cs)
      else if c = 0x7D then map_option (Cons TRBrace) (lex cs)
      else if c = 0x5B then map_option (Cons TLBrack) (lex cs)
      else if c = 0x5D then map_option (Cons TRBrack) (lex cs)
      else if c = 0x3A then map_option (Cons TColon) (lex cs)
      else if c = 0x2C then map_option (Cons TComma) (lex cs)
      else if c = 0x22 then
        (case lex_string cs of
           None \<Rightarrow> None
         | Some (s, rest) \<Rightarrow> map_option (Cons (TStr s)) (lex rest))
      else if c = 0x2D \<or> is_digit c then
        (case lex_number (c # cs) of
           None \<Rightarrow> None
         | Some (t, rest) \<Rightarrow> map_option (Cons t) (lex rest))
      else if c = 0x74 \<and> take 3 cs = str ''rue'' then map_option (Cons TTrue) (lex (drop 3 cs))
      else if c = 0x66 \<and> take 4 cs = str ''alse'' then map_option (Cons TFalse) (lex (drop 4 cs))
      else if c = 0x6E \<and> take 3 cs = str ''ull'' then map_option (Cons TNull) (lex (drop 3 cs))
      else None)"
  by pat_completeness auto
termination
proof (relation "measure length", goal_cases)
  case 1
  show ?case by simp
next
  case (9 c cs x2 x y)
  then show ?case using lex_string_length [of cs x y] by simp
next
  case (10 c cs x2 x y)
  then show ?case using lex_number_length [of "c # cs" x y] by simp
qed simp_all

subsection \<open>JSON.parse: values\<close>

text \<open>
  The grammar is read by a pushdown automaton over the tokens. A frame of the stack is an
  array or an object under construction (its members in reverse order); an object frame
  also holds the key whose value is being read.
\<close>

datatype frame = InArr "json list" | InObj "(jsstring \<times> json) list" jsstring

fun parse_value :: "frame list \<Rightarrow> token list \<Rightarrow> json option"
  and parse_after :: "json \<Rightarrow> frame list \<Rightarrow> token list \<Rightarrow> json option" where
  "parse_value st [] = None"
| "parse_value st (t # ts) =
     (case t of
        TStr s \<Rightarrow> parse_after (JString s) st ts
      | TNum m e \<Rightarrow> parse_after (JNumber m e) st ts
      | TTrue \<Rightarrow> parse_after (JBool True) st ts
      | TFalse \<Rightarrow> parse_after (JBool False) st ts
      | TNull \<Rightarrow> parse_after JNull st ts
      | TLBrack \<Rightarrow>
          (case ts of
             TRBrack # ts' \<Rightarrow> parse_after (JArray []) st ts'
           | _ \<Rightarrow> parse_value (InArr [] # st) ts)
      | TLBrace \<Rightarrow>
          (case ts of
             TRBrace # ts' \<Rightarrow> parse_after (JObject []) st ts'
           | TStr k # TColon # ts' \<Rightarrow> parse_value (InObj [] k # st) ts'
           | _ \<Rightarrow> None)
      | _ \<Rightarrow> None)"
| "parse_after v [] ts = (if ts = [] then Some v else None)"
| "parse_after v (f # st) [] = None"
| "parse_after v (InArr vs # st) (t # ts) =
     (case t of
        TComma \<Rightarrow> parse_value (InArr (v # vs) # st) ts
      | TRBrack \<Rightarrow> parse_after (JArray (rev (v # vs))) st ts
      | _ \<Rightarrow> None)"
| "parse_after v (InObj kvs k # st) (t # ts) =
     (case t of
        TComma \<Rightarrow>
          (case ts of
             TStr k' # TColon # ts' \<Rightarrow> parse_value (InObj ((k, v) # kvs) k' # st) ts'
           | _ \<Rightarrow> None)
      | TRBrace \<Rightarrow> parse_after (JObject (rev ((k, v) # kvs))) st ts
      | _ \<Rightarrow> None)"

text \<open>\<open>JSON.parse\<close>: \<open>None\<close> is the SyntaxError it throws.\<close>

definition JSON_parse :: "jsstring \<Rightarrow> json option" where
  "JSON_parse s = (case lex s of None \<Rightarrow> None | Some ts \<Rightarrow> parse_value [] ts)"

subsection \<open>Values as the program reads them\<close>

text \<open>
  Truthiness. A number literal is falsy when the double nearest to it is zero: the
  literal is zero, or its magnitude is at most \<open>2 ^ -1075\<close>, half the least positive
  double (the tie goes to zero, whose significand is even).
\<close>

fun truthy :: "json \<Rightarrow> bool" where
  "truthy JNull = False"
| "truthy (JBool b) = b"
| "truthy (JNumber m e) =
     (if 0 \<le> e then m \<noteq> 0 else 10 ^ nat (- e) < \<bar>m\<bar> * 2 ^ 1075)"
| "truthy (JString s) = (s \<noteq> [])"
| "truthy (JArray vs) = True"
| "truthy (JObject kvs) = True"

text \<open>
  Reading the property \<open>k\<close> of a parsed value, for a key that no prototype defines
  (\<open>id\<close>, \<open>username\<close>): the last member with that key of an object, \<open>undefined\<close>
  (\<open>None\<close>) on everything else.
\<close>

definition get_prop :: "jsstring \<Rightarrow> json \<Rightarrow> json option" where
  "get_prop k v = (case v of JObject kvs \<Rightarrow> map_of (rev kvs) k | _ \<Rightarrow> None)"

definition truthy_opt :: "json option \<Rightarrow> bool" where
  "truthy_opt v = (case v of None \<Rightarrow> False | Some x \<Rightarrow> truthy x)"


section \<open>The guest list\<close>

text \<open>
  The embedding covers the application as it runs without a Supabase client
  (\<open>SUPABASE_URL\<close> and \<open>SUPABASE_KEY\<close> empty, \<open>supabaseClient\<close> null): every
  operation takes its \<open>localStorage\<close> branch. The other branch hands the operation to the
  external client. The value stored under \<open>LOCAL_KEY\<close> is held as the array that
  \<open>loadLocal\<close> reads from it, and writes to the browser's storage are taken to succeed.
\<close>

definition ADMIN_USER :: jsstring where
  "ADMIN_USER = str ''jesusandia124''"

definition ADMIN_PASS :: jsstring where
  "ADMIN_PASS = str ''andia124''"

record invitado =
  id_inv :: jsstring
  nombre_completo :: jsstring
  tipo_invitado :: jsstring
  qr_code :: jsstring
  ingresado :: bool
  fecha_ingreso :: "jsstring option"
  dni :: jsstring

text \<open>
  \<open>uid\<close>, given the text \<open>rnd\<close> of \<open>Math.random().toString(36)\<close> (such as
  \<open>0.abc1234xyz\<close>): the seven characters after the leading \<open>0.\<close>, fewer when the text
  is shorter.
\<close>

definition uid :: "jsstring \<Rightarrow> jsstring" where
  "uid rnd = str ''id_'' @ slice 2 9 rnd"

type_synonym storage = "invitado list"

definition loadLocal :: "storage \<Rightarrow> invitado list" where
  "loadLocal store = store"

definition saveLocal :: "invitado list \<Rightarrow> storage \<Rightarrow> storage" where
  "saveLocal arr store = arr"

subsection \<open>Dashboard\<close>

record dashboard =
  invitados :: "invitado list"
  q :: jsstring
  dniQ :: jsstring
  newNombre :: jsstring
  newTipo :: jsstring

definition fetchInvitados :: "storage \<times> dashboard \<Rightarrow> storage \<times> dashboard" where
  "fetchInvitados w = (case w of (store, d) \<Rightarrow> (store, d\<lparr>invitados := loadLocal store\<rparr>))"

definition generarQR :: "invitado \<Rightarrow> storage \<times> dashboard \<Rightarrow> storage \<times> dashboard" where
  "generarQR invt w =
     (case w of (store, d) \<Rightarrow>
        let qrPayload = JSON_stringify1 (str ''id'') (id_inv invt);
            arr = map (\<lambda>item. if id_inv item = id_inv invt
                               then item\<lparr>qr_code := qrPayload\<rparr> else item)
                      (loadLocal store)
        in fetchInvitados (saveLocal arr store, d))"

text \<open>\<open>now\<close> is the text of \<open>new Date().toISOString()\<close> at the call.\<close>

definition marcarIngreso ::
  "jsstring \<Rightarrow> invitado \<Rightarrow> storage \<times> dashboard \<Rightarrow> storage \<times> dashboard" where
  "marcarIngreso now invt w =
     (case w of (store, d) \<Rightarrow>
        let arr = map (\<lambda>item. if id_inv item = id_inv invt
                               then item\<lparr>ingresado := True, fecha_ingreso := Some now\<rparr>
                               else item)
                      (loadLocal store)
        in fetchInvitados (saveLocal arr store, d))"

text \<open>\<open>rnd\<close> is the text of the random number that \<open>uid\<close> draws.\<close>

definition addInvitado :: "jsstring \<Rightarrow> storage \<times> dashboard \<Rightarrow> storage \<times> dashboard" where
  "addInvitado rnd w =
     (case w of (store, d) \<Rightarrow>
        if trim (newNombre d) = [] then (store, d)
        else
          let item = \<lparr>id_inv = uid rnd, nombre_completo = trim (newNombre d),
                      tipo_invitado = newTipo d, qr_code = [], ingresado = False,
                      fecha_ingreso = None, dni = dniQ d\<rparr>;
              arr = loadLocal store @ [item]
          in (case fetchInvitados (saveLocal arr store, d) of
                (store', d') \<Rightarrow> (store', d'\<lparr>newNombre := [], dniQ := []\<rparr>)))"


subsection \<open>Scanner\<close>

text \<open>
  What the reader hands to \<open>handleScan\<close>: a string, or another value, which the function
  reads only through its \<open>text\<close> property (empty when it has none) and its
  \<open>JSON.stringify\<close> text.
\<close>

datatype scan_data = ScanText jsstring | ScanObject jsstring jsstring

record scanner =
  result :: "jsstring option"
  invData :: "invitado option"
  message :: jsstring
  invitados_scan :: "invitado list"  \<comment> \<open>the scanner's own \<open>invitados\<close>\<close>

definition QR_invalido :: jsstring where
  "QR_invalido = str (''QR inv'' @ [CHR 0xE1] @ ''lido'')"

definition Invitado_no_registrado :: jsstring where
  "Invitado_no_registrado = str ''Invitado no registrado''"

definition Ingreso_registrado :: jsstring where
  "Ingreso_registrado = str ''Ingreso registrado''"

text \<open>\<open>i.id === id\<close> for the string \<open>i.id\<close> and any value \<open>id\<close>.\<close>

definition findInvitado :: "json \<Rightarrow> scanner \<Rightarrow> scanner" where
  "findInvitado idv sc =
     (case find (\<lambda>i. JString (id_inv i) = idv) (invitados_scan sc) of
        None \<Rightarrow> sc\<lparr>invData := None, message := Invitado_no_registrado\<rparr>
      | Some invt \<Rightarrow> sc\<lparr>invData := Some invt, message := []\<rparr>)"

text \<open>The line \<open>const raw = ...\<close> of \<open>handleScan\<close>.\<close>

definition raw_text :: "scan_data \<Rightarrow> jsstring" where
  "raw_text data =
     (case data of
        ScanText s \<Rightarrow> s
      | ScanObject txt json_text \<Rightarrow> if txt \<noteq> [] then txt else json_text)"

definition handleScan :: "scan_data \<Rightarrow> scanner \<Rightarrow> scanner" where
  "handleScan data sc =
     (if data = ScanText [] then sc
      else
        let raw = raw_text data;
            sc1 = sc\<lparr>result := Some raw\<rparr>
        in case JSON_parse raw of
             None \<Rightarrow> sc1\<lparr>message := QR_invalido\<rparr>
           | Some parsed \<Rightarrow>
               if truthy parsed \<and> truthy_opt (get_prop (str ''id'') parsed)
               then findInvitado (the (get_prop (str ''id'') parsed)) sc1
               else sc1\<lparr>message := QR_invalido\<rparr>)"

definition marcar :: "jsstring \<Rightarrow> storage \<times> scanner \<Rightarrow> storage \<times> scanner" where
  "marcar now w =
     (case w of (store, sc) \<Rightarrow>
        (case invData sc of
           None \<Rightarrow> (store, sc)
         | Some invt \<Rightarrow>
             let arr = map (\<lambda>item. if id_inv item = id_inv invt
                                    then item\<lparr>ingresado := True, fecha_ingreso := Some now\<rparr>
                                    else item)
                           (loadLocal store)
             in (saveLocal arr store,
                 sc\<lparr>invitados_scan := arr, message := Ingreso_registrado,
                    invData := Some (invt\<lparr>ingresado := True, fecha_ingreso := Some now\<rparr>)\<rparr>)))"

subsection \<open>Login\<close>

text \<open>
  The browser as the login page sees it: the value stored under \<open>admin_user\<close> in
  \<open>sessionStorage\<close> (\<open>None\<close> when the key is absent), the \<open>user\<close> state of
  \<open>useAuth\<close> (the username of its admin object, \<open>None\<close> for null), the current route
  and the login page's error message.
\<close>

record browser =
  session :: "jsstring option"
  user :: "jsstring option"
  route :: jsstring
  error_msg :: jsstring

definition login :: "jsstring \<Rightarrow> jsstring \<Rightarrow> browser \<Rightarrow> bool \<times> browser" where
  "login u p b =
     (if u = ADMIN_USER \<and> p = ADMIN_PASS
      then (True, b\<lparr>session := Some (JSON_stringify1 (str ''username'') u), user := Some u\<rparr>)
      else (False, b))"

definition handle :: "jsstring \<Rightarrow> jsstring \<Rightarrow> browser \<Rightarrow> browser" where
  "handle u p b =
     (if u = ADMIN_USER \<and> p = ADMIN_PASS
      then b\<lparr>session := Some (JSON_stringify1 (str ''username'') u),
             route := str ''/dashboard''\<rparr>
      else b\<lparr>error_msg := str ''Credenciales incorrectas''\<rparr>)"

text \<open>
  The session user that a protected view reads: the parsed marker, \<open>null\<close> when the key
  is absent or empty or its text does not parse.
\<close>

definition sessionUser :: "browser \<Rightarrow> json" where
  "sessionUser b =
     (let raw = (case session b of
                   None \<Rightarrow> str ''null''
                 | Some s \<Rightarrow> if s = [] then str ''null'' else s)
      in case JSON_parse raw of None \<Rightarrow> JNull | Some v \<Rightarrow> v)"

definition Protected :: "browser \<Rightarrow> browser" where
  "Protected b = (if \<not> truthy (sessionUser b) then b\<lparr>route := str ''/''\<rparr> else b)"


section \<open>Example data\<close>

text \<open>The two guests of the seed sample, with fixed ids, and the initial component states.\<close>

definition jesus :: invitado where
  "jesus = \<lparr>id_inv = str ''id_abc1234'',
             nombre_completo = str (''Jes'' @ [CHR 0xFA] @ ''s Andres And'' @ [CHR 0xED] @ ''a Zambrano''),
             tipo_invitado = str ''PROMOCIONADO'', qr_code = [], ingresado = False,
             fecha_ingreso = None, dni = str ''00000001''\<rparr>"

definition andres :: invitado where
  "andres = \<lparr>id_inv = str ''id_xyz9876'', nombre_completo = str ''Andres Sanchez Valentin'',
              tipo_invitado = str ''INVITADO'', qr_code = [], ingresado = False,
              fecha_ingreso = None, dni = str ''00000002''\<rparr>"

definition dash0 :: dashboard where
  "dash0 = \<lparr>invitados = [], q = [], dniQ = [], newNombre = [], newTipo = str ''INVITADO''\<rparr>"

definition when1 :: jsstring where
  "when1 = str ''2024-05-01T20:00:00.000Z''"

definition when2 :: jsstring where
  "when2 = str ''2024-05-01T21:30:00.000Z''"

definition browser0 :: browser where
  "browser0 = \<lparr>session = None, user = None, route = str ''/'', error_msg = []\<rparr>"

definition scan0 :: scanner where
  "scan0 = \<lparr>result = None, invData = None, message = [], invitados_scan = []\<rparr>"

definition scan1 :: scanner where
  "scan1 = scan0\<lparr>invitados_scan := [jesus, andres]\<rparr>"

text \<open>
  A record with an empty id, a second record with the first guest's id, and the three
  records once their QR payload is generated.
\<close>

definition ghost :: invitado where
  "ghost = \<lparr>id_inv = [], nombre_completo = str ''Sin Id'', tipo_invitado = str ''INVITADO'',
             qr_code = [], ingresado = False, fecha_ingreso = None, dni = []\<rparr>"

definition doble :: invitado where
  "doble = \<lparr>id_inv = str ''id_abc1234'', nombre_completo = str ''Luis Paredes'',
             tipo_invitado = str ''INVITADO'', qr_code = [], ingresado = False,
             fecha_ingreso = None, dni = []\<rparr>"

definition jesus_qr :: invitado where
  \<open>jesus_qr = jesus\<lparr>qr_code := str ''{"id":"id_abc1234"}''\<rparr>\<close>

definition doble_qr :: invitado where
  \<open>doble_qr = doble\<lparr>qr_code := str ''{"id":"id_abc1234"}''\<rparr>\<close>

definition ghost_qr :: invitado where
  \<open>ghost_qr = ghost\<lparr>qr_code := str ''{"id":""}''\<rparr>\<close>




section \<open>Parsing what JSON.stringify wrote\<close>

text \<open>
  \<open>JSON.parse\<close> reads the text of \<open>JSON.stringify({ k: v })\<close> back as the object with
  the one member \<open>k\<close>, for every string \<open>v\<close>: escapes, control characters and lone
  surrogates included.
\<close>

lemma hexdigit_decimal: "(n::jschar) < 10 \<Longrightarrow> 0x30 \<le> 0x30 + n \<and> 0x30 + n \<le> 0x39"
  by (simp add: word_le_nat_alt word_less_nat_alt unat_word_ariths)

lemma hexdigit_letter: "\<not> (n::jschar) < 10 \<Longrightarrow> n < 16 \<Longrightarrow> 0x61 \<le> 0x57 + n \<and> 0x57 + n \<le> 0x66 \<and> \<not> 0x57 + n \<le> 0x39"
  by (simp add: word_le_nat_alt word_less_nat_alt unat_word_ariths)

lemma take_bit_4_less: "take_bit 4 (x :: jschar) < 16"
  using and_mask_less' [of 4 x] by (simp add: take_bit_eq_mask)

lemma drop_bit_12_less: "drop_bit 12 (x :: jschar) < 16"
proof -
  have "unat x < 65536" using unsigned_less [of x, where ?'a = nat] by simp
  then have "unat x div 4096 < 16" by arith
  moreover have "unat (drop_bit 12 x) = drop_bit 12 (unat x)"
    by (rule unat_drop_bit_eq)
  moreover have "drop_bit 12 (unat x) = unat x div 4096"
    by (simp add: drop_bit_eq_div)
  ultimately show ?thesis by (simp add: word_less_nat_alt)
qed

lemma nibbles: "push_bit 12 (drop_bit 12 c) OR push_bit 8 (take_bit 4 (drop_bit 8 c)) OR
   push_bit 4 (take_bit 4 (drop_bit 4 c)) OR take_bit 4 c = (c :: jschar)"
proof (rule bit_word_eqI)
  fix n assume "n < LENGTH(16)"
  then have n: "n < 16" by simp
  consider "n < 4" | "4 \<le> n" "n < 8" | "8 \<le> n" "n < 12" | "12 \<le> n" by linarith
  then show "bit (push_bit 12 (drop_bit 12 c) OR push_bit 8 (take_bit 4 (drop_bit 8 c)) OR
   push_bit 4 (take_bit 4 (drop_bit 4 c)) OR take_bit 4 c) n = bit c n"
    using n by cases (auto simp: bit_simps)
qed

lemma hexval_hexdigit: "(n::jschar) < 16 \<Longrightarrow> hexval (hexdigit n) = Some n"
  using hexdigit_decimal [of n] hexdigit_letter [of n] by (simp add: hexval_def hexdigit_def)

lemma hex4_UnicodeEscape:
  "hex4 (hexdigit (drop_bit 12 c)) (hexdigit (take_bit 4 (drop_bit 8 c)))
        (hexdigit (take_bit 4 (drop_bit 4 c))) (hexdigit (take_bit 4 c)) = Some c"
  by (simp add: hex4_def hexval_hexdigit take_bit_4_less drop_bit_12_less nibbles)

lemma lex_string_UnicodeEscape:
  "lex_string (UnicodeEscape c @ cs) = cons_fst c (lex_string cs)"
  by (simp add: UnicodeEscape_def hex4_UnicodeEscape)

lemma lex_string_quote_unit:
  "lex_string (quote_unit c @ cs) = cons_fst c (lex_string cs)"
  by (simp add: quote_unit_def lex_string_UnicodeEscape unescape_def)

lemma surrogate_plain:
  "0xD800 \<le> (c::jschar) \<Longrightarrow> \<not> c < 0x20 \<and> c \<noteq> 0x5C \<and> c \<noteq> 0x22"
  by (auto simp: word_le_nat_alt word_less_nat_alt)

lemma lex_string_pair:
  "is_lead c \<Longrightarrow> is_trail d \<Longrightarrow>
   lex_string (c # d # cs) = cons_fst c (cons_fst d (lex_string cs))"
proof -
  assume "is_lead c" "is_trail d"
  then have "0xD800 \<le> c" "0xD800 \<le> d"
    by (auto simp: is_lead_def is_trail_def word_le_nat_alt)
  with surrogate_plain [of c] surrogate_plain [of d] show ?thesis by simp
qed

lemma lex_string_quote_units:
  "lex_string (quote_units s @ 0x22 # rest) = Some (s, rest)"
  by (induction s rule: quote_units.induct)
    (simp_all add: lex_string_quote_unit lex_string_pair cons_fst_def del: lex_string.simps,
      simp_all)

lemma lex_quoted:
  "lex (QuoteJSONString s @ rest) = map_option (Cons (TStr s)) (lex rest)"
  by (simp add: QuoteJSONString_def lex_string_quote_units is_ws_def)

lemma lex_JSON_stringify1:
  "lex (JSON_stringify1 k v) = Some [TLBrace, TStr k, TColon, TStr v, TRBrace]"
proof -
  have "lex (JSON_stringify1 k v)
      = map_option (Cons TLBrace) (lex (QuoteJSONString k @ (0x3A # QuoteJSONString v @ [0x7D])))"
    by (simp add: JSON_stringify1_def is_ws_def)
  also have "\<dots> = map_option (Cons TLBrace) (map_option (Cons (TStr k))
        (lex (0x3A # QuoteJSONString v @ [0x7D])))"
    by (simp only: lex_quoted)
  also have "lex (0x3A # QuoteJSONString v @ [0x7D])
      = map_option (Cons TColon) (lex (QuoteJSONString v @ [0x7D]))"
    by (simp add: is_ws_def)
  also have "lex (QuoteJSONString v @ [0x7D]) = map_option (Cons (TStr v)) (lex [0x7D])"
    by (simp only: lex_quoted)
  also have "lex [0x7D] = Some [TRBrace]"
    by (simp add: is_ws_def)
  finally show ?thesis by simp
qed

lemma JSON_parse_stringify1:
  "JSON_parse (JSON_stringify1 k v) = Some (JObject [(k, JString v)])"
  by (simp add: JSON_parse_def lex_JSON_stringify1)


section \<open>Updates of the stored collection\<close>

lemma fst_generarQR:
  "fst (generarQR invt (store, d)) =
     map (\<lambda>item. if id_inv item = id_inv invt
                  then item\<lparr>qr_code := JSON_stringify1 (str ''id'') (id_inv invt)\<rparr>
                  else item) store"
  by (simp add: generarQR_def fetchInvitados_def loadLocal_def saveLocal_def Let_def)

lemma snd_generarQR:
  "snd (generarQR invt (store, d)) = d\<lparr>invitados := fst (generarQR invt (store, d))\<rparr>"
  by (simp add: generarQR_def fetchInvitados_def loadLocal_def saveLocal_def Let_def)

lemma fst_marcarIngreso:
  "fst (marcarIngreso now invt (store, d)) =
     map (\<lambda>item. if id_inv item = id_inv invt
                  then item\<lparr>ingresado := True, fecha_ingreso := Some now\<rparr>
                  else item) store"
  by (simp add: marcarIngreso_def fetchInvitados_def loadLocal_def saveLocal_def Let_def)

lemma snd_marcarIngreso:
  "snd (marcarIngreso now invt (store, d)) =
     d\<lparr>invitados := fst (marcarIngreso now invt (store, d))\<rparr>"
  by (simp add: marcarIngreso_def fetchInvitados_def loadLocal_def saveLocal_def Let_def)

lemma fst_marcar:
  "invData sc = Some invt \<Longrightarrow>
   fst (marcar now (store, sc)) =
     map (\<lambda>item. if id_inv item = id_inv invt
                  then item\<lparr>ingresado := True, fecha_ingreso := Some now\<rparr>
                  else item) store"
  by (simp add: marcar_def loadLocal_def saveLocal_def Let_def)

lemma snd_marcar:
  "invData sc = Some invt \<Longrightarrow>
   snd (marcar now (store, sc)) =
     sc\<lparr>invitados_scan := fst (marcar now (store, sc)), message := Ingreso_registrado,
        invData := Some (invt\<lparr>ingresado := True, fecha_ingreso := Some now\<rparr>)\<rparr>"
  by (simp add: marcar_def loadLocal_def saveLocal_def Let_def)

lemma marcar_no_match: "invData sc = None \<Longrightarrow> marcar now (store, sc) = (store, sc)"
  by (simp add: marcar_def)

lemma map_if_untouched:
  "(\<And>x. x \<in> set xs \<Longrightarrow> \<not> P x) \<Longrightarrow> map (\<lambda>x. if P x then f x else x) xs = xs"
  by (induction xs) auto

lemma trim_blank: "\<forall>c \<in> set s. js_whitespace c \<Longrightarrow> trim s = []"
proof -
  assume "\<forall>c \<in> set s. js_whitespace c"
  then have h: "dropWhile js_whitespace s = []"
    by (simp add: dropWhile_eq_Nil_conv)
  show ?thesis
    by (simp only: trim_def h dropWhile.simps rev.simps)
qed

lemma addInvitado_blank:
  "trim (newNombre d) = [] \<Longrightarrow> addInvitado rnd (store, d) = (store, d)"
  by (simp add: addInvitado_def)

lemma fst_addInvitado:
  "trim (newNombre d) \<noteq> [] \<Longrightarrow>
   fst (addInvitado rnd (store, d)) =
     store @ [\<lparr>id_inv = uid rnd, nombre_completo = trim (newNombre d),
                tipo_invitado = newTipo d, qr_code = [], ingresado = False,
                fecha_ingreso = None, dni = dniQ d\<rparr>]"
  by (simp add: addInvitado_def fetchInvitados_def loadLocal_def saveLocal_def Let_def)

lemma marcarIngreso_twice:
  "fst (marcarIngreso now2 invt (marcarIngreso now1 invt (store, d))) =
   fst (marcarIngreso now2 invt (store, d))"
proof -
  obtain s1 d1 where w: "marcarIngreso now1 invt (store, d) = (s1, d1)"
    by (cases "marcarIngreso now1 invt (store, d)")
  then have "s1 = fst (marcarIngreso now1 invt (store, d))" by simp
  then have s1: "s1 = map (\<lambda>item. if id_inv item = id_inv invt
                  then item\<lparr>ingresado := True, fecha_ingreso := Some now1\<rparr>
                  else item) store"
    by (simp only: fst_marcarIngreso)
  show ?thesis
    unfolding w fst_marcarIngreso s1 by (induction store) auto
qed

lemma sessionUser_marker:
  "session b = Some (JSON_stringify1 k v) \<Longrightarrow> sessionUser b = JObject [(k, JString v)]"
proof -
  assume s: "session b = Some (JSON_stringify1 k v)"
  have "JSON_stringify1 k v \<noteq> []" by (simp add: JSON_stringify1_def)
  with s show ?thesis by (simp add: sessionUser_def JSON_parse_stringify1 Let_def)
qed

lemma marker_text:
  \<open>JSON_stringify1 (str ''username'') ADMIN_USER = str ''{"username":"jesusandia124"}''\<close>
  by (simp add: JSON_stringify1_def QuoteJSONString_def quote_unit_def is_lead_def
      is_trail_def ADMIN_USER_def str_def)

lemma JSON_parse_null: "JSON_parse (str ''null'') = Some JNull"
  by (simp add: JSON_parse_def str_def is_ws_def is_digit_def)

lemma handleScan_empty: "handleScan (ScanText []) sc = sc"
  by (simp add: handleScan_def)

lemma handleScan_syntax_error:
  "data \<noteq> ScanText [] \<Longrightarrow> JSON_parse (raw_text data) = None \<Longrightarrow>
   handleScan data sc = sc\<lparr>result := Some (raw_text data), message := QR_invalido\<rparr>"
  by (simp add: handleScan_def Let_def)

lemma handleScan_no_id:
  "data \<noteq> ScanText [] \<Longrightarrow> JSON_parse (raw_text data) = Some v \<Longrightarrow>
   \<not> (truthy v \<and> truthy_opt (get_prop (str ''id'') v)) \<Longrightarrow>
   handleScan data sc = sc\<lparr>result := Some (raw_text data), message := QR_invalido\<rparr>"
  by (auto simp: handleScan_def Let_def)

lemma get_prop_truthy: "get_prop k v = Some i \<Longrightarrow> truthy v"
  by (cases v) (simp_all add: get_prop_def)

lemma handleScan_id:
  "data \<noteq> ScanText [] \<Longrightarrow> JSON_parse (raw_text data) = Some v \<Longrightarrow>
   get_prop (str ''id'') v = Some i \<Longrightarrow> truthy i \<Longrightarrow>
   handleScan data sc = findInvitado i (sc\<lparr>result := Some (raw_text data)\<rparr>)"
  by (simp add: handleScan_def Let_def truthy_opt_def get_prop_truthy)

lemma findInvitado_absent:
  "\<forall>r \<in> set (invitados_scan sc). JString (id_inv r) \<noteq> i \<Longrightarrow>
   findInvitado i sc = sc\<lparr>invData := None, message := Invitado_no_registrado\<rparr>"
proof -
  assume "\<forall>r \<in> set (invitados_scan sc). JString (id_inv r) \<noteq> i"
  then have "find (\<lambda>r. JString (id_inv r) = i) (invitados_scan sc) = None"
    by (simp add: find_None_iff)
  then show ?thesis by (simp add: findInvitado_def)
qed

lemma findInvitado_present:
  "find (\<lambda>r. id_inv r = s) (invitados_scan sc) = Some r \<Longrightarrow>
   findInvitado (JString s) sc = sc\<lparr>invData := Some r, message := []\<rparr>"
  by (simp add: findInvitado_def)

lemma parse_known: \<open>JSON_parse (str ''{"id":"id_abc1234"}'')
    = Some (JObject [(str ''id'', JString (str ''id_abc1234''))])\<close>
  by (simp add: JSON_parse_def str_def is_ws_def is_digit_def cons_fst_def)

lemma parse_nope: \<open>JSON_parse (str ''{"id":"nope"}'')
    = Some (JObject [(str ''id'', JString (str ''nope''))])\<close>
  by (simp add: JSON_parse_def str_def is_ws_def is_digit_def cons_fst_def)

lemma parse_hello: "JSON_parse (str ''hello'') = None"
  by (simp add: JSON_parse_def str_def is_ws_def is_digit_def)

lemma parse_id_zero: \<open>JSON_parse (str ''{"id":0}'') = Some (JObject [(str ''id'', JNumber 0 0)])\<close>
  by (simp add: JSON_parse_def str_def is_ws_def is_digit_def cons_fst_def lex_number_def
      lex_int_def lex_frac_def lex_exp_def digits_val_def)

lemma parse_empty: "JSON_parse [] = None"
  by (simp add: JSON_parse_def)

lemma get_prop_single: "get_prop k (JObject [(k, x)]) = Some x"
  by (simp add: get_prop_def)

lemma find_distinct:
  "distinct (map f xs) \<Longrightarrow> r \<in> set xs \<Longrightarrow> find (\<lambda>i. f i = f r) xs = Some r"
  by (induction xs) auto

lemma find_member:
  "r \<in> set xs \<Longrightarrow> \<exists>r'. find (\<lambda>i. f i = f r) xs = Some r' \<and> f r' = f r \<and> r' \<in> set xs"
  by (induction xs) auto

lemma handleScan_generated:
  assumes "s \<noteq> []" and "find (\<lambda>i. id_inv i = s) (invitados_scan sc) = Some r'"
  shows "handleScan (ScanText (JSON_stringify1 (str ''id'') s)) sc =
     sc\<lparr>result := Some (JSON_stringify1 (str ''id'') s), invData := Some r', message := []\<rparr>"
proof -
  have ne: "ScanText (JSON_stringify1 (str ''id'') s) \<noteq> ScanText []"
    by (simp add: JSON_stringify1_def)
  have raw: "raw_text (ScanText (JSON_stringify1 (str ''id'') s)) = JSON_stringify1 (str ''id'') s"
    by (simp add: raw_text_def)
  have "handleScan (ScanText (JSON_stringify1 (str ''id'') s)) sc =
      findInvitado (JString s) (sc\<lparr>result := Some (JSON_stringify1 (str ''id'') s)\<rparr>)"
    using handleScan_id [OF ne, of "JObject [(str ''id'', JString s)]" "JString s" sc] assms(1)
    by (simp add: raw JSON_parse_stringify1 get_prop_single)
  with assms(2) show ?thesis by (simp add: findInvitado_present)
qed

lemma handleScan_generated_empty_id:
  "handleScan (ScanText (JSON_stringify1 (str ''id'') [])) sc =
     sc\<lparr>result := Some (JSON_stringify1 (str ''id'') []), message := QR_invalido\<rparr>"
proof -
  have ne: "ScanText (JSON_stringify1 (str ''id'') []) \<noteq> ScanText []"
    by (simp add: JSON_stringify1_def)
  have raw: "raw_text (ScanText (JSON_stringify1 (str ''id'') [])) = JSON_stringify1 (str ''id'') []"
    by (simp add: raw_text_def)
  show ?thesis
    using handleScan_no_id [OF ne, of "JObject [(str ''id'', JString [])]" sc]
    by (simp add: raw JSON_parse_stringify1 get_prop_single truthy_opt_def)
qed

lemma payload_jesus: \<open>JSON_stringify1 (str ''id'') (str ''id_abc1234'') = str ''{"id":"id_abc1234"}''\<close>
  by (simp add: JSON_stringify1_def QuoteJSONString_def quote_unit_def is_lead_def
      is_trail_def str_def)

lemma payload_ghost: \<open>JSON_stringify1 (str ''id'') [] = str ''{"id":""}''\<close>
  by (simp add: JSON_stringify1_def QuoteJSONString_def quote_unit_def is_lead_def
      is_trail_def str_def)

lemma generarQR_jesus: "fst (generarQR jesus ([jesus, andres], dash0)) = [jesus_qr, andres]"
proof -
  have "id_inv andres \<noteq> id_inv jesus" by (simp add: andres_def jesus_def str_def)
  moreover have "id_inv jesus = str ''id_abc1234''" by (simp add: jesus_def)
  ultimately show ?thesis by (simp add: fst_generarQR payload_jesus jesus_qr_def)
qed







section \<open>Claims\<close>

subsection \<open>C1\<close>

text \<open>
  C1. \<open>marcarIngreso\<close> sets \<open>ingresado\<close> to true and \<open>fecha_ingreso\<close> to the (non-null)
  timestamp of the call on every stored record with the guest's id, and the dashboard
  shows the stored collection. The operation has no guard: a second call overwrites
  \<open>fecha_ingreso\<close> with the second timestamp, so with a later timestamp and a stored
  guest it is not a no-op. The scanner's \<open>marcar\<close> does the same for the matched guest
  and for its own copy of the record.
\<close>

theorem marcarIngreso_sets_and_overwrites:
  "length (fst (marcarIngreso now invt (store, d))) = length store \<and>
   (\<forall>i < length store. id_inv (store ! i) = id_inv invt \<longrightarrow>
      fst (marcarIngreso now invt (store, d)) ! i =
        (store ! i)\<lparr>ingresado := True, fecha_ingreso := Some now\<rparr>) \<and>
   invitados (snd (marcarIngreso now invt (store, d))) = fst (marcarIngreso now invt (store, d)) \<and>
   (\<forall>i < length store. id_inv (store ! i) = id_inv invt \<longrightarrow>
      ingresado (fst (marcarIngreso now2 invt (marcarIngreso now1 invt (store, d))) ! i) \<and>
      fecha_ingreso (fst (marcarIngreso now2 invt (marcarIngreso now1 invt (store, d))) ! i)
        = Some now2) \<and>
   ((\<exists>r \<in> set store. id_inv r = id_inv invt) \<and> now1 \<noteq> now2 \<longrightarrow>
      fst (marcarIngreso now2 invt (marcarIngreso now1 invt (store, d)))
        \<noteq> fst (marcarIngreso now1 invt (store, d))) \<and>
   (invData sc = Some invt \<longrightarrow>
      (\<forall>i < length store. id_inv (store ! i) = id_inv invt \<longrightarrow>
         fst (marcar now (store, sc)) ! i =
           (store ! i)\<lparr>ingresado := True, fecha_ingreso := Some now\<rparr>) \<and>
      invData (snd (marcar now (store, sc))) =
        Some (invt\<lparr>ingresado := True, fecha_ingreso := Some now\<rparr>) \<and>
      invData (snd (marcar now2 (marcar now1 (store, sc)))) =
        Some (invt\<lparr>ingresado := True, fecha_ingreso := Some now2\<rparr>))"
proof -
  have p1: "length (fst (marcarIngreso now invt (store, d))) = length store"
    by (simp add: fst_marcarIngreso)
  have p2: "\<forall>i < length store. id_inv (store ! i) = id_inv invt \<longrightarrow>
      fst (marcarIngreso now invt (store, d)) ! i =
        (store ! i)\<lparr>ingresado := True, fecha_ingreso := Some now\<rparr>"
    by (simp add: fst_marcarIngreso)
  have p3: "invitados (snd (marcarIngreso now invt (store, d))) = fst (marcarIngreso now invt (store, d))"
    by (simp add: snd_marcarIngreso)
  have p4: "\<forall>i < length store. id_inv (store ! i) = id_inv invt \<longrightarrow>
      ingresado (fst (marcarIngreso now2 invt (marcarIngreso now1 invt (store, d))) ! i) \<and>
      fecha_ingreso (fst (marcarIngreso now2 invt (marcarIngreso now1 invt (store, d))) ! i)
        = Some now2"
    by (simp add: marcarIngreso_twice fst_marcarIngreso)
  have p5: "(\<exists>r \<in> set store. id_inv r = id_inv invt) \<and> now1 \<noteq> now2 \<longrightarrow>
      fst (marcarIngreso now2 invt (marcarIngreso now1 invt (store, d)))
        \<noteq> fst (marcarIngreso now1 invt (store, d))"
  proof (intro impI notI, elim conjE bexE)
    fix r assume r: "r \<in> set store" "id_inv r = id_inv invt" and ne: "now1 \<noteq> now2"
      and eq: "fst (marcarIngreso now2 invt (marcarIngreso now1 invt (store, d)))
        = fst (marcarIngreso now1 invt (store, d))"
    from r(1) obtain i where i: "i < length store" "store ! i = r"
      by (auto simp: in_set_conv_nth)
    from eq have "fst (marcarIngreso now2 invt (store, d)) ! i
        = fst (marcarIngreso now1 invt (store, d)) ! i"
      by (simp add: marcarIngreso_twice)
    with i r(2) have "r\<lparr>ingresado := True, fecha_ingreso := Some now2\<rparr>
        = r\<lparr>ingresado := True, fecha_ingreso := Some now1\<rparr>"
      by (simp add: fst_marcarIngreso)
    then have "fecha_ingreso (r\<lparr>ingresado := True, fecha_ingreso := Some now2\<rparr>)
        = fecha_ingreso (r\<lparr>ingresado := True, fecha_ingreso := Some now1\<rparr>)"
      by (rule arg_cong)
    with ne show False by simp
  qed
  have p6: "invData sc = Some invt \<longrightarrow>
      (\<forall>i < length store. id_inv (store ! i) = id_inv invt \<longrightarrow>
         fst (marcar now (store, sc)) ! i =
           (store ! i)\<lparr>ingresado := True, fecha_ingreso := Some now\<rparr>) \<and>
      invData (snd (marcar now (store, sc))) =
        Some (invt\<lparr>ingresado := True, fecha_ingreso := Some now\<rparr>) \<and>
      invData (snd (marcar now2 (marcar now1 (store, sc)))) =
        Some (invt\<lparr>ingresado := True, fecha_ingreso := Some now2\<rparr>)"
    by (simp add: marcar_def Let_def loadLocal_def saveLocal_def)
  from p1 p2 p3 p4 p5 p6 show ?thesis by blast
qed

theorem marcarIngreso_sets_and_overwrites_witness:
  "fst (marcarIngreso when1 jesus ([jesus, andres], dash0)) ! 0 =
      jesus\<lparr>ingresado := True, fecha_ingreso := Some when1\<rparr> \<and>
   fecha_ingreso (fst (marcarIngreso when2 jesus
      (marcarIngreso when1 jesus ([jesus, andres], dash0))) ! 0) = Some when2 \<and>
   fst (marcarIngreso when2 jesus (marcarIngreso when1 jesus ([jesus, andres], dash0)))
      \<noteq> fst (marcarIngreso when1 jesus ([jesus, andres], dash0)) \<and>
   invData (snd (marcar when2 (marcar when1 ([jesus, andres], scan0\<lparr>invData := Some jesus\<rparr>)))) =
      Some (jesus\<lparr>ingresado := True, fecha_ingreso := Some when2\<rparr>)"
proof -
  have ne: "when1 \<noteq> when2" by (simp add: when1_def when2_def str_def)
  have ex: "\<exists>r \<in> set [jesus, andres]. id_inv r = id_inv jesus" by simp
  have i: "invData (scan0\<lparr>invData := Some jesus\<rparr>) = Some jesus" by simp
  from marcarIngreso_sets_and_overwrites [of when1 jesus "[jesus, andres]" dash0 when2 when1
      "scan0\<lparr>invData := Some jesus\<rparr>"] ne ex i
  show ?thesis by simp
qed

subsection \<open>C2\<close>

text \<open>
  C2 (as stated). Every record added by \<open>addInvitado\<close> receives an id distinct from the
  ids already in the collection. \<open>uid\<close> keeps seven characters of the random number's
  text and nothing compares the result with the stored ids: two different draws that
  agree on those characters give two guests the same id.
\<close>

theorem uid_collision_counterexample:
  "str ''0.k3j9x0a1b2c'' \<noteq> str ''0.k3j9x0azzzz'' \<and>
   map id_inv (fst (addInvitado (str ''0.k3j9x0azzzz'')
      (fst (addInvitado (str ''0.k3j9x0a1b2c'') ([], dash0\<lparr>newNombre := str ''Ana''\<rparr>)),
       (snd (addInvitado (str ''0.k3j9x0a1b2c'') ([], dash0\<lparr>newNombre := str ''Ana''\<rparr>)))
          \<lparr>newNombre := str ''Luis''\<rparr>)))
     = [str ''id_k3j9x0a'', str ''id_k3j9x0a'']"
proof -
  have a: "trim (str ''Ana'') \<noteq> []" and l: "trim (str ''Luis'') \<noteq> []"
    by (simp_all add: trim_def str_def js_whitespace_def)
  have u: "uid (str ''0.k3j9x0a1b2c'') = str ''id_k3j9x0a''"
    "uid (str ''0.k3j9x0azzzz'') = str ''id_k3j9x0a''"
    by (simp_all add: uid_def slice_def str_def)
  have ne: "str ''0.k3j9x0a1b2c'' \<noteq> str ''0.k3j9x0azzzz''"
    by (simp add: str_def)
  have 1: "map id_inv (fst (addInvitado (str ''0.k3j9x0a1b2c'') ([], dash0\<lparr>newNombre := str ''Ana''\<rparr>)))
      = [str ''id_k3j9x0a'']"
    using a by (simp add: fst_addInvitado u)
  have 2: "map id_inv (fst (addInvitado (str ''0.k3j9x0azzzz'')
      (fst (addInvitado (str ''0.k3j9x0a1b2c'') ([], dash0\<lparr>newNombre := str ''Ana''\<rparr>)),
       (snd (addInvitado (str ''0.k3j9x0a1b2c'') ([], dash0\<lparr>newNombre := str ''Ana''\<rparr>)))
          \<lparr>newNombre := str ''Luis''\<rparr>)))
     = [str ''id_k3j9x0a'', str ''id_k3j9x0a'']"
    using l by (simp add: fst_addInvitado u 1)
  from ne 2 show ?thesis by blast
qed

text \<open>
  C2 (amended). \<open>addInvitado\<close> with a non-blank name appends one record to the stored
  collection, whose id is \<open>id_\<close> followed by the (at most seven) characters after the
  first two of the random number's text. No check against the collection is made: the
  ids stay distinct exactly when they were distinct and the new id is not among them,
  and two draws give the same id exactly when they agree on those characters.
\<close>

theorem addInvitado_id:
  "trim (newNombre d) \<noteq> [] \<Longrightarrow>
   length (fst (addInvitado rnd (store, d))) = Suc (length store) \<and>
   take (length store) (fst (addInvitado rnd (store, d))) = store \<and>
   id_inv (last (fst (addInvitado rnd (store, d)))) = str ''id_'' @ take 7 (drop 2 rnd) \<and>
   (distinct (map id_inv (fst (addInvitado rnd (store, d)))) \<longleftrightarrow>
      distinct (map id_inv store) \<and> str ''id_'' @ take 7 (drop 2 rnd) \<notin> id_inv ` set store) \<and>
   (id_inv (last (fst (addInvitado rnd' (store, d)))) = id_inv (last (fst (addInvitado rnd (store, d))))
      \<longleftrightarrow> take 7 (drop 2 rnd') = take 7 (drop 2 rnd))"
  by (auto simp: fst_addInvitado uid_def slice_def)

theorem addInvitado_id_witness:
  "fst (addInvitado (str ''0.k3j9x0a1b2c'') ([jesus, andres], dash0\<lparr>newNombre := str '' Ana ''\<rparr>)) ! 2
     = \<lparr>id_inv = str ''id_k3j9x0a'', nombre_completo = str ''Ana'', tipo_invitado = str ''INVITADO'',
        qr_code = [], ingresado = False, fecha_ingreso = None, dni = []\<rparr> \<and>
   distinct (map id_inv
     (fst (addInvitado (str ''0.k3j9x0a1b2c'') ([jesus, andres], dash0\<lparr>newNombre := str '' Ana ''\<rparr>))))"
proof -
  have t: "trim (newNombre (dash0\<lparr>newNombre := str '' Ana ''\<rparr>)) = str ''Ana''"
    by (simp add: trim_def str_def js_whitespace_def)
  then have n: "trim (newNombre (dash0\<lparr>newNombre := str '' Ana ''\<rparr>)) \<noteq> []"
    by (simp add: str_def)
  have dd: "distinct (map id_inv [jesus, andres]) \<and>
      str ''id_'' @ take 7 (drop 2 (str ''0.k3j9x0a1b2c'')) \<notin> id_inv ` set [jesus, andres]"
    by (simp add: jesus_def andres_def str_def)
  from addInvitado_id [OF n, of "str ''0.k3j9x0a1b2c''" "[jesus, andres]"] dd
  have 1: "distinct (map id_inv
     (fst (addInvitado (str ''0.k3j9x0a1b2c'') ([jesus, andres], dash0\<lparr>newNombre := str '' Ana ''\<rparr>))))"
    by blast
  have 2: "fst (addInvitado (str ''0.k3j9x0a1b2c'') ([jesus, andres], dash0\<lparr>newNombre := str '' Ana ''\<rparr>)) ! 2
     = \<lparr>id_inv = str ''id_k3j9x0a'', nombre_completo = str ''Ana'', tipo_invitado = str ''INVITADO'',
        qr_code = [], ingresado = False, fecha_ingreso = None, dni = []\<rparr>"
  proof -
    have u: "uid (str ''0.k3j9x0a1b2c'') = str ''id_k3j9x0a''"
      by (simp add: uid_def slice_def str_def)
    show ?thesis
      by (simp only: fst_addInvitado [OF n] t u) (simp add: dash0_def)
  qed
  from 1 2 show ?thesis by blast
qed

subsection \<open>C3\<close>

text \<open>
  C3 (as stated). Every scanned payload that does not parse is reported as invalid, and
  every payload with an identifier that the list does not have is reported as not
  registered. The empty payload does not parse, yet \<open>handleScan\<close> returns at its first
  line and reports nothing: the scanner is left exactly as it was. And the payload
  \<open>{"id":0}\<close> has an \<open>id\<close> member that no record has, yet it is reported as
  \<open>QR_invalido\<close>, not as \<open>Invitado_no_registrado\<close>: the test \<open>parsed.id\<close> is one of
  truthiness.
\<close>

theorem handleScan_empty_payload_counterexample:
  \<open>JSON_parse (raw_text (ScanText [])) = None \<and>
   message (handleScan (ScanText []) scan1) \<noteq> QR_invalido \<and>
   handleScan (ScanText []) scan1 = scan1 \<and>
   JSON_parse (raw_text (ScanText (str ''{"id":0}''))) = Some (JObject [(str ''id'', JNumber 0 0)]) \<and>
   message (handleScan (ScanText (str ''{"id":0}'')) scan1) = QR_invalido \<and>
   QR_invalido \<noteq> Invitado_no_registrado\<close>
proof -
  have e: "JSON_parse (raw_text (ScanText [])) = None \<and>
   message (handleScan (ScanText []) scan1) \<noteq> QR_invalido \<and>
   handleScan (ScanText []) scan1 = scan1"
    by (simp add: handleScan_empty parse_empty raw_text_def scan1_def scan0_def QR_invalido_def
      str_def)
  have r: \<open>raw_text (ScanText (str ''{"id":0}'')) = str ''{"id":0}''\<close>
    by (simp add: raw_text_def)
  have n: \<open>ScanText (str ''{"id":0}'') \<noteq> ScanText []\<close>
    by (simp add: str_def)
  have f: "\<not> (truthy (JObject [(str ''id'', JNumber 0 0)]) \<and>
      truthy_opt (get_prop (str ''id'') (JObject [(str ''id'', JNumber 0 0)])))"
    by (simp add: get_prop_single truthy_opt_def)
  have z: \<open>message (handleScan (ScanText (str ''{"id":0}'')) scan1) = QR_invalido\<close>
    using handleScan_no_id [OF n, of "JObject [(str ''id'', JNumber 0 0)]" scan1] f
    by (simp add: r parse_id_zero)
  have d: "QR_invalido \<noteq> Invitado_no_registrado"
    by (simp add: QR_invalido_def Invitado_no_registrado_def str_def)
  have p: \<open>JSON_parse (raw_text (ScanText (str ''{"id":0}'')))
      = Some (JObject [(str ''id'', JNumber 0 0)])\<close>
    by (simp only: r parse_id_zero)
  from e p z d show ?thesis by blast
qed

text \<open>
  C3 (amended). \<open>handleScan\<close> ignores an empty payload. For every other payload: when
  the text does not parse, or the parsed value has no truthy \<open>id\<close> member (none at all,
  or one that is empty, zero, false or null), the message is \<open>QR_invalido\<close> and the
  guest shown is left as it was; when the \<open>id\<close> is truthy and no record of the list has
  it, the message is \<open>Invitado no registrado\<close> and no guest is shown; when the \<open>id\<close> is
  a non-empty string and the list has a record with it, the first such record is shown
  and the message is cleared.
\<close>

theorem handleScan_outcomes:
  "handleScan (ScanText []) sc = sc \<and>
   (data \<noteq> ScanText [] \<longrightarrow>
      (JSON_parse (raw_text data) = None \<longrightarrow>
         message (handleScan data sc) = QR_invalido \<and>
         invData (handleScan data sc) = invData sc) \<and>
      (\<forall>v. JSON_parse (raw_text data) = Some v \<and>
            \<not> (truthy v \<and> truthy_opt (get_prop (str ''id'') v)) \<longrightarrow>
         message (handleScan data sc) = QR_invalido \<and>
         invData (handleScan data sc) = invData sc) \<and>
      (\<forall>v i. JSON_parse (raw_text data) = Some v \<and> get_prop (str ''id'') v = Some i \<and>
              truthy i \<and> (\<forall>r \<in> set (invitados_scan sc). JString (id_inv r) \<noteq> i) \<longrightarrow>
         message (handleScan data sc) = Invitado_no_registrado \<and>
         invData (handleScan data sc) = None) \<and>
      (\<forall>v s r. JSON_parse (raw_text data) = Some v \<and>
                get_prop (str ''id'') v = Some (JString s) \<and> s \<noteq> [] \<and>
                find (\<lambda>r. id_inv r = s) (invitados_scan sc) = Some r \<longrightarrow>
         invData (handleScan data sc) = Some r \<and> message (handleScan data sc) = [] \<and>
         r \<in> set (invitados_scan sc) \<and> id_inv r = s))"
proof -
  have a: "data \<noteq> ScanText [] \<Longrightarrow> JSON_parse (raw_text data) = None \<Longrightarrow>
         message (handleScan data sc) = QR_invalido \<and>
         invData (handleScan data sc) = invData sc"
    by (simp add: handleScan_syntax_error)
  have b: "\<And>v. data \<noteq> ScanText [] \<Longrightarrow> JSON_parse (raw_text data) = Some v \<Longrightarrow>
            \<not> (truthy v \<and> truthy_opt (get_prop (str ''id'') v)) \<Longrightarrow>
         message (handleScan data sc) = QR_invalido \<and>
         invData (handleScan data sc) = invData sc"
    by (simp add: handleScan_no_id)
  have c: "\<And>v i. data \<noteq> ScanText [] \<Longrightarrow> JSON_parse (raw_text data) = Some v \<Longrightarrow>
         get_prop (str ''id'') v = Some i \<Longrightarrow> truthy i \<Longrightarrow>
         \<forall>r \<in> set (invitados_scan sc). JString (id_inv r) \<noteq> i \<Longrightarrow>
         message (handleScan data sc) = Invitado_no_registrado \<and>
         invData (handleScan data sc) = None"
    by (simp add: handleScan_id findInvitado_absent)
  have d: "\<And>v s r. data \<noteq> ScanText [] \<Longrightarrow> JSON_parse (raw_text data) = Some v \<Longrightarrow>
         get_prop (str ''id'') v = Some (JString s) \<Longrightarrow> s \<noteq> [] \<Longrightarrow>
         find (\<lambda>r. id_inv r = s) (invitados_scan sc) = Some r \<Longrightarrow>
         invData (handleScan data sc) = Some r \<and> message (handleScan data sc) = [] \<and>
         r \<in> set (invitados_scan sc) \<and> id_inv r = s"
  proof -
    fix v s r
    assume 1: "data \<noteq> ScanText []" "JSON_parse (raw_text data) = Some v"
      "get_prop (str ''id'') v = Some (JString s)" "s \<noteq> []"
      and f: "find (\<lambda>r. id_inv r = s) (invitados_scan sc) = Some r"
    from f have m: "r \<in> set (invitados_scan sc) \<and> id_inv r = s"
      by (auto simp: find_Some_iff)
    from 1 have "handleScan data sc = findInvitado (JString s) (sc\<lparr>result := Some (raw_text data)\<rparr>)"
      by (simp add: handleScan_id)
    with f m show "invData (handleScan data sc) = Some r \<and> message (handleScan data sc) = [] \<and>
         r \<in> set (invitados_scan sc) \<and> id_inv r = s"
      by (simp add: findInvitado_present)
  qed
  from a b c d handleScan_empty [of sc] show ?thesis by blast
qed

theorem handleScan_outcomes_witness:
  \<open>invData (handleScan (ScanText (str ''{"id":"id_abc1234"}'')) scan1) = Some jesus \<and>
   message (handleScan (ScanText (str ''{"id":"id_abc1234"}'')) scan1) = [] \<and>
   message (handleScan (ScanText (str ''{"id":"nope"}'')) scan1) = Invitado_no_registrado \<and>
   invData (handleScan (ScanText (str ''{"id":"nope"}'')) scan1) = None \<and>
   message (handleScan (ScanText (str ''hello'')) scan1) = QR_invalido\<close>
proof -
  have l: "invitados_scan scan1 = [jesus, andres]"
    by (simp add: scan1_def scan0_def)
  have f: "find (\<lambda>r. id_inv r = str ''id_abc1234'') (invitados_scan scan1) = Some jesus"
    by (simp add: l jesus_def)
  have n: "\<forall>r \<in> set (invitados_scan scan1). JString (id_inv r) \<noteq> JString (str ''nope'')"
    by (simp add: l jesus_def andres_def str_def)
  have t: "truthy (JString (str ''nope''))" "str ''id_abc1234'' \<noteq> []"
    by (simp_all add: str_def)
  have d: \<open>ScanText (str ''{"id":"id_abc1234"}'') \<noteq> ScanText []\<close>
    \<open>ScanText (str ''{"id":"nope"}'') \<noteq> ScanText []\<close>
    \<open>ScanText (str ''hello'') \<noteq> ScanText []\<close>
    by (simp_all add: str_def)
  from handleScan_outcomes [of scan1 \<open>ScanText (str ''{"id":"id_abc1234"}'')\<close>]
    d(1) parse_known get_prop_single t(2) f
  have 1: \<open>invData (handleScan (ScanText (str ''{"id":"id_abc1234"}'')) scan1) = Some jesus \<and>
   message (handleScan (ScanText (str ''{"id":"id_abc1234"}'')) scan1) = []\<close>
    by (simp add: raw_text_def)
  from handleScan_outcomes [of scan1 \<open>ScanText (str ''{"id":"nope"}'')\<close>]
    d(2) parse_nope get_prop_single t(1) n
  have 2: \<open>message (handleScan (ScanText (str ''{"id":"nope"}'')) scan1) = Invitado_no_registrado \<and>
   invData (handleScan (ScanText (str ''{"id":"nope"}'')) scan1) = None\<close>
    by (simp add: raw_text_def)
  from handleScan_outcomes [of scan1 \<open>ScanText (str ''hello'')\<close>] d(3) parse_hello
  have 3: "message (handleScan (ScanText (str ''hello'')) scan1) = QR_invalido"
    by (simp add: raw_text_def)
  from 1 2 3 show ?thesis by blast
qed

subsection \<open>C4\<close>

text \<open>
  C4. The operations preserve the invariant that \<open>fecha_ingreso\<close> is null exactly when
  \<open>ingresado\<close> is false: it holds of every stored record after \<open>addInvitado\<close>,
  \<open>generarQR\<close>, \<open>marcarIngreso\<close> and \<open>marcar\<close> when it held before. The record that
  \<open>addInvitado\<close> appends has \<open>ingresado = false\<close> and \<open>fecha_ingreso = null\<close>, and
  \<open>marcarIngreso\<close> sets the two fields together.
\<close>

theorem admitted_at_invariant:
  assumes "\<forall>r \<in> set store. (fecha_ingreso r = None) = (\<not> ingresado r)"
  shows "(\<forall>r \<in> set (fst (addInvitado rnd (store, d))). (fecha_ingreso r = None) = (\<not> ingresado r)) \<and>
    (\<forall>r \<in> set (fst (generarQR invt (store, d))). (fecha_ingreso r = None) = (\<not> ingresado r)) \<and>
    (\<forall>r \<in> set (fst (marcarIngreso now invt (store, d))).
        (fecha_ingreso r = None) = (\<not> ingresado r)) \<and>
    (\<forall>r \<in> set (fst (marcar now (store, sc))). (fecha_ingreso r = None) = (\<not> ingresado r)) \<and>
    (trim (newNombre d) \<noteq> [] \<longrightarrow>
       \<not> ingresado (last (fst (addInvitado rnd (store, d)))) \<and>
       fecha_ingreso (last (fst (addInvitado rnd (store, d)))) = None) \<and>
    (\<forall>i < length store. id_inv (store ! i) = id_inv invt \<longrightarrow>
       ingresado (fst (marcarIngreso now invt (store, d)) ! i) \<and>
       fecha_ingreso (fst (marcarIngreso now invt (store, d)) ! i) = Some now)"
proof -
  have add: "\<forall>r \<in> set (fst (addInvitado rnd (store, d))). (fecha_ingreso r = None) = (\<not> ingresado r)"
    using assms by (cases "trim (newNombre d) = []") (auto simp: addInvitado_blank fst_addInvitado)
  have qr: "\<forall>r \<in> set (fst (generarQR invt (store, d))). (fecha_ingreso r = None) = (\<not> ingresado r)"
    using assms by (auto simp: fst_generarQR)
  have mi: "\<forall>r \<in> set (fst (marcarIngreso now invt (store, d))).
        (fecha_ingreso r = None) = (\<not> ingresado r)"
    using assms by (auto simp: fst_marcarIngreso)
  have ma: "\<forall>r \<in> set (fst (marcar now (store, sc))). (fecha_ingreso r = None) = (\<not> ingresado r)"
  proof (cases "invData sc")
    case None
    then show ?thesis using assms by (simp add: marcar_no_match)
  next
    case (Some g)
    then show ?thesis using assms by (auto simp: fst_marcar)
  qed
  have new: "trim (newNombre d) \<noteq> [] \<longrightarrow>
       \<not> ingresado (last (fst (addInvitado rnd (store, d)))) \<and>
       fecha_ingreso (last (fst (addInvitado rnd (store, d)))) = None"
    by (simp add: fst_addInvitado)
  have both: "\<forall>i < length store. id_inv (store ! i) = id_inv invt \<longrightarrow>
       ingresado (fst (marcarIngreso now invt (store, d)) ! i) \<and>
       fecha_ingreso (fst (marcarIngreso now invt (store, d)) ! i) = Some now"
    by (simp add: fst_marcarIngreso)
  from add qr mi ma new both show ?thesis by blast
qed

theorem admitted_at_invariant_witness:
  "\<not> ingresado (last (fst (addInvitado (str ''0.k3j9x0a1b2c'')
        ([jesus, andres], dash0\<lparr>newNombre := str ''Ana''\<rparr>)))) \<and>
   fecha_ingreso (last (fst (addInvitado (str ''0.k3j9x0a1b2c'')
        ([jesus, andres], dash0\<lparr>newNombre := str ''Ana''\<rparr>)))) = None \<and>
   ingresado (fst (marcarIngreso when1 jesus
        ([jesus, andres], dash0\<lparr>newNombre := str ''Ana''\<rparr>)) ! 0) \<and>
   fecha_ingreso (fst (marcarIngreso when1 jesus
        ([jesus, andres], dash0\<lparr>newNombre := str ''Ana''\<rparr>)) ! 0) = Some when1 \<and>
   list_all (\<lambda>r. (fecha_ingreso r = None) = (\<not> ingresado r))
     (fst (marcarIngreso when1 jesus ([jesus, andres], dash0\<lparr>newNombre := str ''Ana''\<rparr>)))"
proof -
  have h: "\<forall>r \<in> set [jesus, andres]. (fecha_ingreso r = None) = (\<not> ingresado r)"
    by (simp add: jesus_def andres_def)
  have n: "trim (newNombre (dash0\<lparr>newNombre := str ''Ana''\<rparr>)) \<noteq> []"
    by (simp add: trim_def str_def js_whitespace_def)
  from admitted_at_invariant [OF h, of "str ''0.k3j9x0a1b2c''"
      "dash0\<lparr>newNombre := str ''Ana''\<rparr>" jesus when1 scan0] n
  show ?thesis by (simp add: list_all_iff)
qed

subsection \<open>C5\<close>

text \<open>
  C5. \<open>generarQR\<close> is idempotent. A second call for a guest with the same id (the
  refreshed record of the same guest) leaves the state of the first call as it is; the
  payload stored on a record is \<open>JSON.stringify({ id })\<close> of the record's own id and of
  nothing else; and \<open>generarQR\<close> changes no id.
\<close>

theorem generarQR_idempotent:
  "(id_inv invt' = id_inv invt \<longrightarrow>
      generarQR invt' (generarQR invt (store, d)) = generarQR invt (store, d)) \<and>
   (\<forall>r \<in> set (fst (generarQR invt (store, d))).
      id_inv r = id_inv invt \<longrightarrow> qr_code r = JSON_stringify1 (str ''id'') (id_inv r)) \<and>
   map id_inv (fst (generarQR invt (store, d))) = map id_inv store"
proof -
  have a: "id_inv invt' = id_inv invt \<longrightarrow>
      generarQR invt' (generarQR invt (store, d)) = generarQR invt (store, d)"
  proof
    assume e: "id_inv invt' = id_inv invt"
    have "map (\<lambda>item. if id_inv item = id_inv invt
                  then item\<lparr>qr_code := JSON_stringify1 (str ''id'') (id_inv invt)\<rparr>
                  else item)
          (map (\<lambda>item. if id_inv item = id_inv invt
                  then item\<lparr>qr_code := JSON_stringify1 (str ''id'') (id_inv invt)\<rparr>
                  else item) store)
        = map (\<lambda>item. if id_inv item = id_inv invt
                  then item\<lparr>qr_code := JSON_stringify1 (str ''id'') (id_inv invt)\<rparr>
                  else item) store"
      by (induction store) auto
    with e show "generarQR invt' (generarQR invt (store, d)) = generarQR invt (store, d)"
      by (simp add: generarQR_def fetchInvitados_def loadLocal_def saveLocal_def Let_def)
  qed
  have b: "\<forall>r \<in> set (fst (generarQR invt (store, d))).
      id_inv r = id_inv invt \<longrightarrow> qr_code r = JSON_stringify1 (str ''id'') (id_inv r)"
    by (auto simp: fst_generarQR)
  have c: "map id_inv (fst (generarQR invt (store, d))) = map id_inv store"
    by (simp add: fst_generarQR o_def if_distrib cong: if_cong)
  from a b c show ?thesis by blast
qed

theorem generarQR_idempotent_witness:
  \<open>generarQR (jesus\<lparr>qr_code := str ''{"id":"id_abc1234"}''\<rparr>)
      (generarQR jesus ([jesus, andres], dash0)) = generarQR jesus ([jesus, andres], dash0) \<and>
   qr_code (fst (generarQR jesus ([jesus, andres], dash0)) ! 0) = str ''{"id":"id_abc1234"}''\<close>
proof -
  have e: \<open>id_inv (jesus\<lparr>qr_code := str ''{"id":"id_abc1234"}''\<rparr>) = id_inv jesus\<close>
    by simp
  have m: "fst (generarQR jesus ([jesus, andres], dash0)) ! 0
      \<in> set (fst (generarQR jesus ([jesus, andres], dash0)))"
    by (simp add: fst_generarQR)
  have i: "id_inv (fst (generarQR jesus ([jesus, andres], dash0)) ! 0) = id_inv jesus"
    by (simp add: fst_generarQR)
  have p: \<open>JSON_stringify1 (str ''id'') (id_inv jesus) = str ''{"id":"id_abc1234"}''\<close>
    by (simp add: JSON_stringify1_def QuoteJSONString_def quote_unit_def is_lead_def
        is_trail_def jesus_def str_def)
  from generarQR_idempotent [of "jesus\<lparr>qr_code := str ''{\"id\":\"id_abc1234\"}''\<rparr>" jesus
      "[jesus, andres]" dash0] e m i p
  show ?thesis by auto
qed

subsection \<open>C6\<close>

text \<open>
  C6 (as stated). Scanning a generated payload against a list that contains the guest
  always matches the guest. For a guest with the empty id the payload is \<open>{"id":""}\<close>,
  whose \<open>id\<close> is falsy: the scanner reports \<open>QR_invalido\<close> and shows no guest. And when
  two records carry the same id, scanning the payload of the second shows the first.
\<close>

theorem scan_generated_payload_counterexample:
  \<open>fst (generarQR ghost ([ghost], dash0)) = [ghost_qr] \<and>
   message (handleScan (ScanText (qr_code ghost_qr)) (scan0\<lparr>invitados_scan := [ghost_qr]\<rparr>))
     = QR_invalido \<and>
   invData (handleScan (ScanText (qr_code ghost_qr)) (scan0\<lparr>invitados_scan := [ghost_qr]\<rparr>))
     = None \<and>
   fst (generarQR doble ([jesus, doble], dash0)) = [jesus_qr, doble_qr] \<and>
   invData (handleScan (ScanText (qr_code doble_qr)) (scan0\<lparr>invitados_scan := [jesus_qr, doble_qr]\<rparr>))
     = Some jesus_qr \<and>
   jesus_qr \<noteq> doble_qr\<close>
proof -
  have 1: "fst (generarQR ghost ([ghost], dash0)) = [ghost_qr]"
    by (simp add: fst_generarQR ghost_qr_def payload_ghost) (simp add: ghost_def payload_ghost)
  have q: "qr_code ghost_qr = JSON_stringify1 (str ''id'') []"
    by (simp add: ghost_qr_def payload_ghost)
  have 2: "message (handleScan (ScanText (qr_code ghost_qr)) (scan0\<lparr>invitados_scan := [ghost_qr]\<rparr>))
     = QR_invalido"
    and 3: "invData (handleScan (ScanText (qr_code ghost_qr)) (scan0\<lparr>invitados_scan := [ghost_qr]\<rparr>))
     = None"
    by (simp_all add: q handleScan_generated_empty_id scan0_def)
  have ids: "id_inv jesus = str ''id_abc1234''" "id_inv doble = str ''id_abc1234''"
    by (simp_all add: jesus_def doble_def)
  have 4: "fst (generarQR doble ([jesus, doble], dash0)) = [jesus_qr, doble_qr]"
    by (simp add: fst_generarQR ids payload_jesus jesus_qr_def doble_qr_def)
  have qd: "qr_code doble_qr = JSON_stringify1 (str ''id'') (str ''id_abc1234'')"
    by (simp add: doble_qr_def payload_jesus)
  have f: "find (\<lambda>i. id_inv i = str ''id_abc1234'')
      (invitados_scan (scan0\<lparr>invitados_scan := [jesus_qr, doble_qr]\<rparr>)) = Some jesus_qr"
    by (simp add: jesus_qr_def ids)
  have ne: "str ''id_abc1234'' \<noteq> []" by (simp add: str_def)
  have 5: "invData (handleScan (ScanText (qr_code doble_qr))
      (scan0\<lparr>invitados_scan := [jesus_qr, doble_qr]\<rparr>)) = Some jesus_qr"
    unfolding qd by (simp add: handleScan_generated [OF ne f])
  have "nombre_completo jesus_qr \<noteq> nombre_completo doble_qr"
    by (simp add: jesus_qr_def doble_qr_def jesus_def doble_def str_def)
  then have 6: "jesus_qr \<noteq> doble_qr" by auto
  from 1 2 3 4 5 6 show ?thesis by blast
qed

text \<open>
  C6 (amended). For every record on which \<open>generarQR\<close> has acted, \<open>JSON.parse\<close> of the
  stored payload succeeds and gives the object whose only member \<open>id\<close> is the record's
  id. When that id is not empty, scanning the payload against a list that contains the
  record shows the first record of the list with that id and clears the message; the
  record shown is the record itself when the ids of the list are distinct. When the id
  is empty the scanner reports \<open>QR_invalido\<close>.
\<close>

theorem qr_payload_roundtrip:
  "\<forall>r \<in> set (fst (generarQR invt (store, d))). id_inv r = id_inv invt \<longrightarrow>
     JSON_parse (qr_code r) = Some (JObject [(str ''id'', JString (id_inv r))]) \<and>
     get_prop (str ''id'') (JObject [(str ''id'', JString (id_inv r))]) = Some (JString (id_inv r)) \<and>
     (id_inv r \<noteq> [] \<and> r \<in> set (invitados_scan sc) \<longrightarrow>
        invData (handleScan (ScanText (qr_code r)) sc)
          = find (\<lambda>i. id_inv i = id_inv r) (invitados_scan sc) \<and>
        (\<exists>r'. invData (handleScan (ScanText (qr_code r)) sc) = Some r' \<and>
              id_inv r' = id_inv r \<and> r' \<in> set (invitados_scan sc)) \<and>
        message (handleScan (ScanText (qr_code r)) sc) = [] \<and>
        (distinct (map id_inv (invitados_scan sc)) \<longrightarrow>
           invData (handleScan (ScanText (qr_code r)) sc) = Some r)) \<and>
     (id_inv r = [] \<longrightarrow>
        message (handleScan (ScanText (qr_code r)) sc) = QR_invalido \<and>
        invData (handleScan (ScanText (qr_code r)) sc) = invData sc)"
proof (intro ballI impI)
  fix r assume r: "r \<in> set (fst (generarQR invt (store, d)))" and i: "id_inv r = id_inv invt"
  from r i have q: "qr_code r = JSON_stringify1 (str ''id'') (id_inv r)"
    by (auto simp: fst_generarQR)
  have p: "JSON_parse (qr_code r) = Some (JObject [(str ''id'', JString (id_inv r))])"
    by (simp add: q JSON_parse_stringify1)
  have g: "get_prop (str ''id'') (JObject [(str ''id'', JString (id_inv r))]) = Some (JString (id_inv r))"
    by (rule get_prop_single)
  have m: "id_inv r \<noteq> [] \<and> r \<in> set (invitados_scan sc) \<longrightarrow>
        invData (handleScan (ScanText (qr_code r)) sc)
          = find (\<lambda>i. id_inv i = id_inv r) (invitados_scan sc) \<and>
        (\<exists>r'. invData (handleScan (ScanText (qr_code r)) sc) = Some r' \<and>
              id_inv r' = id_inv r \<and> r' \<in> set (invitados_scan sc)) \<and>
        message (handleScan (ScanText (qr_code r)) sc) = [] \<and>
        (distinct (map id_inv (invitados_scan sc)) \<longrightarrow>
           invData (handleScan (ScanText (qr_code r)) sc) = Some r)"
  proof (intro impI, elim conjE)
    assume ne: "id_inv r \<noteq> []" and mem: "r \<in> set (invitados_scan sc)"
    from find_member [OF mem, of id_inv] obtain r' where
      f: "find (\<lambda>i. id_inv i = id_inv r) (invitados_scan sc) = Some r'"
      and e: "id_inv r' = id_inv r" and m': "r' \<in> set (invitados_scan sc)"
      by blast
    have h: "handleScan (ScanText (qr_code r)) sc =
        sc\<lparr>result := Some (qr_code r), invData := Some r', message := []\<rparr>"
      unfolding q by (rule handleScan_generated [OF ne f])
    have dd: "distinct (map id_inv (invitados_scan sc)) \<longrightarrow> r' = r"
      using find_distinct [of id_inv "invitados_scan sc" r] mem f by auto
    from h f e m' dd show "invData (handleScan (ScanText (qr_code r)) sc)
          = find (\<lambda>i. id_inv i = id_inv r) (invitados_scan sc) \<and>
        (\<exists>r'. invData (handleScan (ScanText (qr_code r)) sc) = Some r' \<and>
              id_inv r' = id_inv r \<and> r' \<in> set (invitados_scan sc)) \<and>
        message (handleScan (ScanText (qr_code r)) sc) = [] \<and>
        (distinct (map id_inv (invitados_scan sc)) \<longrightarrow>
           invData (handleScan (ScanText (qr_code r)) sc) = Some r)"
      by simp
  qed
  have z: "id_inv r = [] \<longrightarrow>
        message (handleScan (ScanText (qr_code r)) sc) = QR_invalido \<and>
        invData (handleScan (ScanText (qr_code r)) sc) = invData sc"
  proof
    assume e: "id_inv r = []"
    show "message (handleScan (ScanText (qr_code r)) sc) = QR_invalido \<and>
        invData (handleScan (ScanText (qr_code r)) sc) = invData sc"
      unfolding q e by (simp add: handleScan_generated_empty_id)
  qed
  from p g m z show "JSON_parse (qr_code r) = Some (JObject [(str ''id'', JString (id_inv r))]) \<and>
     get_prop (str ''id'') (JObject [(str ''id'', JString (id_inv r))]) = Some (JString (id_inv r)) \<and>
     (id_inv r \<noteq> [] \<and> r \<in> set (invitados_scan sc) \<longrightarrow>
        invData (handleScan (ScanText (qr_code r)) sc)
          = find (\<lambda>i. id_inv i = id_inv r) (invitados_scan sc) \<and>
        (\<exists>r'. invData (handleScan (ScanText (qr_code r)) sc) = Some r' \<and>
              id_inv r' = id_inv r \<and> r' \<in> set (invitados_scan sc)) \<and>
        message (handleScan (ScanText (qr_code r)) sc) = [] \<and>
        (distinct (map id_inv (invitados_scan sc)) \<longrightarrow>
           invData (handleScan (ScanText (qr_code r)) sc) = Some r)) \<and>
     (id_inv r = [] \<longrightarrow>
        message (handleScan (ScanText (qr_code r)) sc) = QR_invalido \<and>
        invData (handleScan (ScanText (qr_code r)) sc) = invData sc)"
    by blast
qed

theorem qr_payload_roundtrip_witness:
  \<open>JSON_parse (qr_code jesus_qr) = Some (JObject [(str ''id'', JString (str ''id_abc1234''))]) \<and>
   invData (handleScan (ScanText (qr_code jesus_qr)) (scan0\<lparr>invitados_scan := [jesus_qr, andres]\<rparr>))
     = Some jesus_qr \<and>
   message (handleScan (ScanText (qr_code jesus_qr)) (scan0\<lparr>invitados_scan := [jesus_qr, andres]\<rparr>))
     = []\<close>
proof -
  have m: "jesus_qr \<in> set (fst (generarQR jesus ([jesus, andres], dash0)))"
    by (simp add: generarQR_jesus)
  have i: "id_inv jesus_qr = id_inv jesus" "id_inv jesus_qr = str ''id_abc1234''"
    by (simp_all add: jesus_qr_def jesus_def)
  have ne: "id_inv jesus_qr \<noteq> []" by (simp add: i(2) str_def)
  have l: "jesus_qr \<in> set (invitados_scan (scan0\<lparr>invitados_scan := [jesus_qr, andres]\<rparr>))"
    by simp
  have dst: "distinct (map id_inv (invitados_scan (scan0\<lparr>invitados_scan := [jesus_qr, andres]\<rparr>)))"
    by (simp add: i(2) andres_def str_def)
  from qr_payload_roundtrip [of jesus "[jesus, andres]" dash0
      "scan0\<lparr>invitados_scan := [jesus_qr, andres]\<rparr>"] m i(1)
  have a: "JSON_parse (qr_code jesus_qr) = Some (JObject [(str ''id'', JString (id_inv jesus_qr))])"
    and b: "id_inv jesus_qr \<noteq> [] \<and>
        jesus_qr \<in> set (invitados_scan (scan0\<lparr>invitados_scan := [jesus_qr, andres]\<rparr>)) \<longrightarrow>
        message (handleScan (ScanText (qr_code jesus_qr))
            (scan0\<lparr>invitados_scan := [jesus_qr, andres]\<rparr>)) = [] \<and>
        (distinct (map id_inv (invitados_scan (scan0\<lparr>invitados_scan := [jesus_qr, andres]\<rparr>))) \<longrightarrow>
           invData (handleScan (ScanText (qr_code jesus_qr))
              (scan0\<lparr>invitados_scan := [jesus_qr, andres]\<rparr>)) = Some jesus_qr)"
    by blast+
  from b ne l dst have c: "message (handleScan (ScanText (qr_code jesus_qr))
            (scan0\<lparr>invitados_scan := [jesus_qr, andres]\<rparr>)) = []"
    and e: "invData (handleScan (ScanText (qr_code jesus_qr))
              (scan0\<lparr>invitados_scan := [jesus_qr, andres]\<rparr>)) = Some jesus_qr"
    by blast+
  from a c e show ?thesis by (simp only: i(2))
qed

subsection \<open>C7\<close>



subsection \<open>C8\<close>

text \<open>
  C8. Login succeeds exactly for the pair \<open>("jesusandia124", "andia124")\<close>, compared as
  strings. For that pair \<open>login\<close> returns true, the session marker
  \<open>{"username":"jesusandia124"}\<close> (an object with the username as its only member) is
  stored, the login page goes to the dashboard and a protected view does not redirect. For
  every other pair \<open>login\<close> returns false, the login page shows its error, and the session
  storage is left as it was; with no marker stored before, none is stored after and a
  protected view redirects to the login page.
\<close>

theorem login_exact_pair:
  \<open>(u = ADMIN_USER \<and> p = ADMIN_PASS \<longrightarrow>
      login u p b = (True, b\<lparr>session := Some (str ''{"username":"jesusandia124"}''),
                            user := Some ADMIN_USER\<rparr>) \<and>
      handle u p b = b\<lparr>session := Some (str ''{"username":"jesusandia124"}''),
                        route := str ''/dashboard''\<rparr> \<and>
      sessionUser (handle u p b) = JObject [(str ''username'', JString ADMIN_USER)] \<and>
      Protected (handle u p b) = handle u p b) \<and>
   (\<not> (u = ADMIN_USER \<and> p = ADMIN_PASS) \<longrightarrow>
      login u p b = (False, b) \<and>
      handle u p b = b\<lparr>error_msg := str ''Credenciales incorrectas''\<rparr> \<and>
      session (handle u p b) = session b \<and>
      (session b = None \<longrightarrow>
         session (handle u p b) = None \<and> route (Protected (handle u p b)) = str ''/''))\<close>
proof -
  have ok: \<open>u = ADMIN_USER \<and> p = ADMIN_PASS \<longrightarrow>
      login u p b = (True, b\<lparr>session := Some (str ''{"username":"jesusandia124"}''),
                            user := Some ADMIN_USER\<rparr>) \<and>
      handle u p b = b\<lparr>session := Some (str ''{"username":"jesusandia124"}''),
                        route := str ''/dashboard''\<rparr>\<close>
    by (simp add: login_def handle_def marker_text)
  have su: "u = ADMIN_USER \<and> p = ADMIN_PASS \<longrightarrow>
      sessionUser (handle u p b) = JObject [(str ''username'', JString ADMIN_USER)]"
    by (simp add: handle_def sessionUser_marker)
  from su have pr: "u = ADMIN_USER \<and> p = ADMIN_PASS \<longrightarrow> Protected (handle u p b) = handle u p b"
    by (simp add: Protected_def)
  have no: "\<not> (u = ADMIN_USER \<and> p = ADMIN_PASS) \<longrightarrow>
      login u p b = (False, b) \<and>
      handle u p b = b\<lparr>error_msg := str ''Credenciales incorrectas''\<rparr> \<and>
      session (handle u p b) = session b"
    by (auto simp: login_def handle_def)
  have re: "\<not> (u = ADMIN_USER \<and> p = ADMIN_PASS) \<longrightarrow> session b = None \<longrightarrow>
         session (handle u p b) = None \<and> route (Protected (handle u p b)) = str ''/''"
    by (auto simp: handle_def Protected_def sessionUser_def JSON_parse_null)
  from ok su pr no re show ?thesis by blast
qed

theorem login_exact_pair_witness:
  \<open>login (str ''jesusandia124'') (str ''andia124'') browser0
      = (True, browser0\<lparr>session := Some (str ''{"username":"jesusandia124"}''),
                        user := Some ADMIN_USER\<rparr>) \<and>
    route (Protected (handle (str ''jesusandia124'') (str ''andia124'') browser0))
      = str ''/dashboard'' \<and>
    login (str ''jesusandia124'') (str ''Andia124'') browser0 = (False, browser0) \<and>
    session (handle (str ''jesusandia124'') (str ''Andia124'') browser0) = None \<and>
    route (Protected (handle (str ''jesusandia124'') (str ''Andia124'') browser0)) = str ''/'' \<and>
    login (str ''jesusandia124 '') (str ''andia124'') browser0 = (False, browser0)\<close>
proof -
  have a: "str ''jesusandia124'' = ADMIN_USER \<and> str ''andia124'' = ADMIN_PASS"
    by (simp add: ADMIN_USER_def ADMIN_PASS_def)
  have b: "\<not> (str ''jesusandia124'' = ADMIN_USER \<and> str ''Andia124'' = ADMIN_PASS)"
    by (simp add: ADMIN_USER_def ADMIN_PASS_def str_def)
  have c: "\<not> (str ''jesusandia124 '' = ADMIN_USER \<and> str ''andia124'' = ADMIN_PASS)"
    by (simp add: ADMIN_USER_def ADMIN_PASS_def str_def)
  have n: "session browser0 = None" by (simp add: browser0_def)
  from login_exact_pair [of "str ''jesusandia124''" "str ''andia124''" browser0] a
  have 1: \<open>login (str ''jesusandia124'') (str ''andia124'') browser0
      = (True, browser0\<lparr>session := Some (str ''{"username":"jesusandia124"}''),
                        user := Some ADMIN_USER\<rparr>)\<close>
    and h: \<open>handle (str ''jesusandia124'') (str ''andia124'') browser0
      = browser0\<lparr>session := Some (str ''{"username":"jesusandia124"}''),
                  route := str ''/dashboard''\<rparr>\<close>
    and pr: "Protected (handle (str ''jesusandia124'') (str ''andia124'') browser0)
      = handle (str ''jesusandia124'') (str ''andia124'') browser0"
    by blast+
  have 2: "route (Protected (handle (str ''jesusandia124'') (str ''andia124'') browser0))
      = str ''/dashboard''"
    by (simp only: pr) (simp add: h)
  from login_exact_pair [of "str ''jesusandia124''" "str ''Andia124''" browser0] b n
  have 3: "login (str ''jesusandia124'') (str ''Andia124'') browser0 = (False, browser0)"
    and 4: "session (handle (str ''jesusandia124'') (str ''Andia124'') browser0) = None"
    and 5: "route (Protected (handle (str ''jesusandia124'') (str ''Andia124'') browser0)) = str ''/''"
    by blast+
  from login_exact_pair [of "str ''jesusandia124 ''" "str ''andia124''" browser0] c
  have 6: "login (str ''jesusandia124 '') (str ''andia124'') browser0 = (False, browser0)"
    by blast
  from 1 2 3 4 5 6 show ?thesis by blast
qed

subsection \<open>C9\<close>

text \<open>
  C9. \<open>addInvitado\<close> with a name that is empty or consists of whitespace only returns
  before it touches anything: the stored collection and the form are unchanged, and no
  message is set.
\<close>

theorem addInvitado_blank_name_noop:
  "\<forall>c \<in> set (newNombre d). js_whitespace c \<Longrightarrow> addInvitado rnd (store, d) = (store, d)"
  by (simp add: trim_blank addInvitado_blank)

theorem addInvitado_blank_name_noop_witness:
  "addInvitado (str ''0.k3j9x0a1b2c'') ([jesus, andres], dash0) = ([jesus, andres], dash0) \<and>
   addInvitado (str ''0.k3j9x0a1b2c'') ([jesus, andres], dash0\<lparr>newNombre := str ''   ''\<rparr>)
     = ([jesus, andres], dash0\<lparr>newNombre := str ''   ''\<rparr>)"
proof -
  have e: "\<forall>c \<in> set (newNombre dash0). js_whitespace c"
    by (simp add: dash0_def)
  have w: "\<forall>c \<in> set (newNombre (dash0\<lparr>newNombre := str ''   ''\<rparr>)). js_whitespace c"
    by (simp add: str_def js_whitespace_def)
  from addInvitado_blank_name_noop [OF e] addInvitado_blank_name_noop [OF w]
  show ?thesis by simp
qed

subsection \<open>C10\<close>

text \<open>
  C10. Frame property of the updates. \<open>generarQR\<close>, \<open>marcarIngreso\<close> and the scanner's
  \<open>marcar\<close> keep the length of the stored collection and leave every record whose id
  differs from the target's unchanged in all fields; when no stored record has the
  target's id the stored collection is unchanged. (\<open>marcar\<close> without a matched guest
  changes nothing at all.)
\<close>

theorem update_frame:
  "length (fst (generarQR invt (store, d))) = length store \<and>
   (\<forall>i < length store. id_inv (store ! i) \<noteq> id_inv invt \<longrightarrow>
        fst (generarQR invt (store, d)) ! i = store ! i) \<and>
   ((\<forall>r \<in> set store. id_inv r \<noteq> id_inv invt) \<longrightarrow> fst (generarQR invt (store, d)) = store) \<and>
   length (fst (marcarIngreso now invt (store, d))) = length store \<and>
   (\<forall>i < length store. id_inv (store ! i) \<noteq> id_inv invt \<longrightarrow>
        fst (marcarIngreso now invt (store, d)) ! i = store ! i) \<and>
   ((\<forall>r \<in> set store. id_inv r \<noteq> id_inv invt) \<longrightarrow>
        fst (marcarIngreso now invt (store, d)) = store) \<and>
   (invData sc = Some invt \<longrightarrow>
      length (fst (marcar now (store, sc))) = length store \<and>
      (\<forall>i < length store. id_inv (store ! i) \<noteq> id_inv invt \<longrightarrow>
          fst (marcar now (store, sc)) ! i = store ! i) \<and>
      ((\<forall>r \<in> set store. id_inv r \<noteq> id_inv invt) \<longrightarrow> fst (marcar now (store, sc)) = store)) \<and>
   (invData sc = None \<longrightarrow> marcar now (store, sc) = (store, sc))"
  by (auto simp: fst_generarQR fst_marcarIngreso fst_marcar map_if_untouched marcar_no_match)

theorem update_frame_witness:
  "fst (generarQR jesus ([jesus, andres], dash0)) ! 1 = andres \<and>
   fst (generarQR jesus ([andres], dash0)) = [andres] \<and>
   fst (marcarIngreso (when1) jesus ([jesus, andres], dash0)) ! 1 = andres \<and>
   fst (marcarIngreso (when1) jesus ([andres], dash0)) = [andres] \<and>
   fst (marcar (when1)
          ([jesus, andres], scan0\<lparr>invData := Some jesus\<rparr>)) ! 1 = andres \<and>
   fst (marcar (when1) ([andres], scan0\<lparr>invData := Some jesus\<rparr>))
     = [andres] \<and>
   marcar (when1) ([jesus, andres], scan0)
     = ([jesus, andres], scan0)"
proof -
  have ne: "id_inv andres \<noteq> id_inv jesus"
    by (simp add: andres_def jesus_def str_def)
  note a = update_frame [of jesus "[jesus, andres]" dash0 "when1"
      "scan0\<lparr>invData := Some jesus\<rparr>"]
  note b = update_frame [of jesus "[andres]" dash0 "when1"
      "scan0\<lparr>invData := Some jesus\<rparr>"]
  note c = update_frame [of jesus "[jesus, andres]" dash0 "when1" scan0]
  have "invData scan0 = None" by (simp add: scan0_def)
  with c have c': "marcar (when1) ([jesus, andres], scan0)
     = ([jesus, andres], scan0)" by blast
  from a ne have a1: "fst (generarQR jesus ([jesus, andres], dash0)) ! 1 = andres"
    and a2: "fst (marcarIngreso (when1) jesus ([jesus, andres], dash0)) ! 1
       = andres"
    and a3: "fst (marcar (when1)
          ([jesus, andres], scan0\<lparr>invData := Some jesus\<rparr>)) ! 1 = andres"
    by force+
  from b ne have b1: "fst (generarQR jesus ([andres], dash0)) = [andres]"
    and b2: "fst (marcarIngreso (when1) jesus ([andres], dash0)) = [andres]"
    and b3: "fst (marcar (when1) ([andres], scan0\<lparr>invData := Some jesus\<rparr>))
     = [andres]"
    by force+
  from a1 a2 a3 b1 b2 b3 c' show ?thesis by blast
qed

end
